theory Spec2Isabelle
  imports Main
begin

section \<open>CodeView: publishing a project and reconciling its repository metadata\<close>

text \<open>
  The development embeds the logic of the React component \<open>CodeView\<close> of
  \<^verbatim>\<open>src/codeview.jsx\<close>: the effect that takes over incoming project files, the
  loader of the stored repository metadata, \<open>saveRepoMetadata\<close>, \<open>publishToGitHub\<close>,
  \<open>changeBranch\<close>, \<open>openRepo\<close> and \<open>copyRepoUrl\<close>.

  A handler of the component calls state setters, \<open>toast\<close>, \<open>fetch\<close>,
  \<open>window.open\<close> and so on, in some order. Its model is the list of these calls in the
  order the handler makes them (an \<open>effect list\<close>); \<open>apply_effects\<close> then plays the state
  setters on the component state, as React does for the next render. What the
  platform answers (the outcome of a \<open>fetch\<close>, what \<open>JSON.parse\<close> and \<open>new URL\<close>
  make of a string, the clock, what the user types in a prompt) is an argument of the
  model, so every theorem holds for whatever the platform answers.
\<close>

subsection \<open>JavaScript values\<close>

text \<open>
  The file set is a JavaScript object from paths to contents; only whether it has a key
  is ever inspected (\<open>Object.keys(files).length\<close>), so it is a list of entries.
\<close>

type_synonym file_set = "(string \<times> string) list"

text \<open>
  An optional string (\<open>undefined\<close> is \<open>None\<close>) is truthy when it is a non-empty string.
  \<open>present v\<close> is the string a test \<open>if (v)\<close> lets through.
\<close>

definition present :: "string option \<Rightarrow> string option" where
  "present v = (case v of None \<Rightarrow> None | Some s \<Rightarrow> if s = [] then None else Some s)"

definition truthy :: "string option \<Rightarrow> bool" where
  "truthy v = (present v \<noteq> None)"

text \<open>\<open>a || b\<close> on an optional string and a string.\<close>

definition or_else :: "string option \<Rightarrow> string \<Rightarrow> string" where
  "or_else v d = (case present v of None \<Rightarrow> d | Some s \<Rightarrow> s)"

text \<open>The decimal rendering of a number inside a template literal (\<open>Date.now()\<close> is a
  non-negative integer).\<close>

definition digit_char :: "nat \<Rightarrow> char" where
  "digit_char d = ''0123456789'' ! d"

fun show_nat :: "nat \<Rightarrow> string" where
  "show_nat n = (if n < 10 then [digit_char n] else show_nat (n div 10) @ [digit_char (n mod 10)])"

declare show_nat.simps [simp del]

text \<open>\<open>s.split(c)\<close> for a one-character separator: \<open>"".split("/")\<close> is \<open>[""]\<close>.\<close>

fun split_on :: "char \<Rightarrow> string \<Rightarrow> string list" where
  "split_on c [] = [[]]"
| "split_on c (x # xs) =
     (if x = c then [] # split_on c xs
      else (case split_on c xs of [] \<Rightarrow> [[x]] | w # ws \<Rightarrow> (x # w) # ws))"

text \<open>\<open>ws.join(c)\<close>, against which \<open>split_on\<close> is checked below.\<close>

fun join_with :: "char \<Rightarrow> string list \<Rightarrow> string" where
  "join_with c [] = []"
| "join_with c [w] = w"
| "join_with c (w # v # ws) = w @ c # join_with c (v # ws)"

text \<open>\<open>pathname.split("/").filter(Boolean)\<close>: the non-empty segments of a path.\<close>

definition path_segments :: "string \<Rightarrow> string list" where
  "path_segments p = filter (\<lambda>s. s \<noteq> []) (split_on CHR ''/'' p)"

text \<open>\<open>xs.pop()\<close>: the last element, \<open>undefined\<close> on the empty array.\<close>

definition pop :: "'a list \<Rightarrow> 'a option" where
  "pop xs = (case xs of [] \<Rightarrow> None | _ # _ \<Rightarrow> Some (last xs))"

text \<open>What parsing a body as JSON gives: a syntax error, the value \<open>null\<close> (reading a
  property of it throws), or a value whose properties can be read.\<close>

datatype 'a parsed = NotJSON | JNull | JValue 'a

text \<open>An awaited promise either rejects (the \<open>await\<close> throws) or yields a value.\<close>

datatype 'a promise = Rejected | Fulfilled 'a

subsection \<open>Data of the component\<close>

text \<open>The \<open>useState\<close> cells of \<open>CodeView\<close>.\<close>

record cv_state =
  files :: file_set
  loading :: bool
  repoName :: string
  repoUrl :: string
  repoBranch :: string

text \<open>The project record's repository fields: what \<open>GET /api/projects/id\<close> answers and
  what \<open>saveRepoMetadata\<close> sends. A field that is \<open>undefined\<close> is left out by
  \<open>JSON.stringify\<close>.\<close>

record project_metadata =
  githubRepoName :: "string option"
  githubRepoUrl :: "string option"
  githubBranch :: "string option"

text \<open>The body of the publish request, \<open>{repoName, files, branch}\<close>.\<close>

record publish_request =
  body_repoName :: string
  body_files :: file_set
  body_branch :: string

text \<open>
  The properties \<open>publishToGitHub\<close> reads of the parsed answer \<open>data\<close>:
  \<open>data.success\<close> (its truthiness), \<open>data.repoUrl\<close>, \<open>data.repoName\<close> and
  \<open>data.error\<close> (strings when there, as the publish endpoint declares them). A JSON
  number, string, boolean or array has none of these properties and reads as the value
  with every field absent.
\<close>

record publish_data =
  data_success :: bool
  data_repoUrl :: "string option"
  data_repoName :: "string option"
  data_error :: "string option"

text \<open>The answer to the metadata \<open>GET\<close>: \<open>res.ok\<close> and what \<open>res.json()\<close> gives.\<close>

record load_response =
  ok :: bool
  json :: "project_metadata parsed"

datatype http_method = GET | POST | PATCH

datatype body = NoBody | PublishBody publish_request | MetadataBody project_metadata

datatype effect =
    Toast string
  | SetFiles file_set
  | SetLoading bool
  | SetRepoName string
  | SetRepoUrl string
  | SetRepoBranch string
  | Fetch string http_method body
  | WindowOpen string
  | ClipboardWrite string
  | Prompt string string
  | ConsoleError

text \<open>The two platform functions applied to strings that come from a server.
  \<open>URL_pathname u\<close> is \<open>new URL(u).pathname\<close>, \<open>None\<close> when the constructor throws.\<close>

record platform =
  JSON_parse :: "string \<Rightarrow> publish_data parsed"
  URL_pathname :: "string \<Rightarrow> string option"

subsection \<open>State\<close>

text \<open>The initial \<open>useState\<close> values; \<open>Lookup.DEFAULT_FILE\<close> is a parameter.\<close>

definition initial_state :: "file_set option \<Rightarrow> cv_state" where
  "initial_state DEFAULT_FILE =
     \<lparr>files = (case DEFAULT_FILE of None \<Rightarrow> [] | Some f \<Rightarrow> f),
      loading = False, repoName = [], repoUrl = [], repoBranch = ''main''\<rparr>"

fun apply_effect :: "cv_state \<Rightarrow> effect \<Rightarrow> cv_state" where
  "apply_effect st (SetFiles f) = st\<lparr>files := f\<rparr>"
| "apply_effect st (SetLoading b) = st\<lparr>loading := b\<rparr>"
| "apply_effect st (SetRepoName n) = st\<lparr>repoName := n\<rparr>"
| "apply_effect st (SetRepoUrl u) = st\<lparr>repoUrl := u\<rparr>"
| "apply_effect st (SetRepoBranch b) = st\<lparr>repoBranch := b\<rparr>"
| "apply_effect st (Toast s) = st"
| "apply_effect st (Fetch u m b) = st"
| "apply_effect st (WindowOpen u) = st"
| "apply_effect st (ClipboardWrite u) = st"
| "apply_effect st (Prompt m d) = st"
| "apply_effect st ConsoleError = st"

definition apply_effects :: "cv_state \<Rightarrow> effect list \<Rightarrow> cv_state" where
  "apply_effects st es = foldl apply_effect st es"

subsection \<open>Reading a trace\<close>

definition toasts :: "effect list \<Rightarrow> string list" where
  "toasts es = concat (map (\<lambda>e. case e of Toast s \<Rightarrow> [s] | _ \<Rightarrow> []) es)"

definition requests :: "effect list \<Rightarrow> (string \<times> http_method \<times> body) list" where
  "requests es = concat (map (\<lambda>e. case e of Fetch u m b \<Rightarrow> [(u, m, b)] | _ \<Rightarrow> []) es)"

text \<open>The metadata writes of a trace: the bodies of its \<open>PATCH\<close> requests, with their
  addresses.\<close>

definition metadata_patches :: "effect list \<Rightarrow> (string \<times> body) list" where
  "metadata_patches es =
     concat (map (\<lambda>e. case e of Fetch u PATCH b \<Rightarrow> [(u, b)] | _ \<Rightarrow> []) es)"

text \<open>The calls of the three repository setters, in order.\<close>

definition metadata_updates :: "effect list \<Rightarrow> effect list" where
  "metadata_updates es =
     filter (\<lambda>e. case e of SetRepoName n \<Rightarrow> True | SetRepoUrl u \<Rightarrow> True
                | SetRepoBranch b \<Rightarrow> True | _ \<Rightarrow> False) es"

definition branch_changes :: "effect list \<Rightarrow> string list" where
  "branch_changes es = concat (map (\<lambda>e. case e of SetRepoBranch b \<Rightarrow> [b] | _ \<Rightarrow> []) es)"

definition busy_changes :: "effect list \<Rightarrow> bool list" where
  "busy_changes es = concat (map (\<lambda>e. case e of SetLoading b \<Rightarrow> [b] | _ \<Rightarrow> []) es)"

definition file_changes :: "effect list \<Rightarrow> file_set list" where
  "file_changes es = concat (map (\<lambda>e. case e of SetFiles f \<Rightarrow> [f] | _ \<Rightarrow> []) es)"

subsection \<open>The component's functions\<close>

text \<open>Lines 27 to 31, the effect on \<open>projectFiles\<close> (the spec's \<open>replaceFiles\<close>):
  \<open>if (projectFiles && Object.keys(projectFiles).length) setFiles(projectFiles)\<close>.\<close>

definition replaceFiles :: "file_set option \<Rightarrow> effect list" where
  "replaceFiles projectFiles =
     (case projectFiles of None \<Rightarrow> []
      | Some pf \<Rightarrow> if pf = [] then [] else [SetFiles pf])"

text \<open>
  Lines 46 to 53 and again 115 to 122:
  \<^verbatim>\<open>try { const u = new URL(url);
        const name = u.pathname.split("/").filter(Boolean).pop();
        if (name) setRepoName(name);
  } catch { if (fallback) setRepoName(fallback); }\<close>
\<close>

definition deriveRepoName :: "platform \<Rightarrow> string \<Rightarrow> string option \<Rightarrow> effect list" where
  "deriveRepoName env url fallback =
     (case URL_pathname env url of
        Some pathname \<Rightarrow>
          (case pop (path_segments pathname) of
             Some name \<Rightarrow> [SetRepoName name]
           | None \<Rightarrow> [])
      | None \<Rightarrow>
          (case present fallback of Some n \<Rightarrow> [SetRepoName n] | None \<Rightarrow> []))"

text \<open>Lines 43 to 58, what \<open>loadRepoInfo\<close> does with the loaded \<open>data\<close>
  (the spec's \<open>applyLoaded\<close>).\<close>

definition applyLoaded :: "platform \<Rightarrow> project_metadata \<Rightarrow> effect list" where
  "applyLoaded env d =
     (case present (githubRepoUrl d) of
        Some u \<Rightarrow> SetRepoUrl u # deriveRepoName env u (githubRepoName d)
      | None \<Rightarrow>
          (case present (githubRepoName d) of Some n \<Rightarrow> [SetRepoName n] | None \<Rightarrow> []))
     @ (case present (githubBranch d) of Some b \<Rightarrow> [SetRepoBranch b] | None \<Rightarrow> [])"

text \<open>Lines 34 to 66: nothing without an identifier; a rejected \<open>fetch\<close>, a status that
  is not ok, a body that is not JSON and the body \<open>null\<close> all end silently.\<close>

definition loadRepoInfo :: "platform \<Rightarrow> string option \<Rightarrow> load_response promise \<Rightarrow> effect list" where
  "loadRepoInfo env pid resp =
     (case present pid of
        None \<Rightarrow> []
      | Some i \<Rightarrow>
          Fetch (''/api/projects/'' @ i) GET NoBody #
          (case resp of
             Rejected \<Rightarrow> []
           | Fulfilled res \<Rightarrow>
               if \<not> ok res then []
               else (case json res of
                       NotJSON \<Rightarrow> []
                     | JNull \<Rightarrow> []
                     | JValue d \<Rightarrow> applyLoaded env d)))"

text \<open>Lines 68 to 80: \<open>if (!id) return;\<close> then one \<open>PATCH\<close>, whose failure is swallowed.\<close>

definition saveRepoMetadata :: "string option \<Rightarrow> project_metadata \<Rightarrow> effect list" where
  "saveRepoMetadata pid meta =
     (case present pid of
        None \<Rightarrow> []
      | Some i \<Rightarrow> [Fetch (''/api/projects/'' @ i) PATCH (MetadataBody meta)])"

text \<open>Line 89: \<^verbatim>\<open>repoName || `ai-workspace-${id || Date.now()}`\<close>.\<close>

definition repoNameToUse :: "string option \<Rightarrow> nat \<Rightarrow> cv_state \<Rightarrow> string" where
  "repoNameToUse pid now st =
     (if repoName st \<noteq> [] then repoName st
      else ''ai-workspace-'' @ or_else pid (show_nat now))"

text \<open>Lines 113 to 128, the update of the local repository info after a successful
  publish (the spec's \<open>applyPublishResult\<close>).\<close>

definition applyPublishResult :: "platform \<Rightarrow> publish_data \<Rightarrow> string \<Rightarrow> effect list" where
  "applyPublishResult env d attemptedName =
     (case present (data_repoUrl d) of
        Some u \<Rightarrow> SetRepoUrl u # deriveRepoName env u (data_repoName d)
      | None \<Rightarrow>
          (case present (data_repoName d) of
             Some n \<Rightarrow> [SetRepoName n]
           | None \<Rightarrow> [SetRepoName attemptedName]))"

text \<open>Lines 131 to 135, the object handed to \<open>saveRepoMetadata\<close>.\<close>

definition publishedMetadata :: "publish_data \<Rightarrow> string \<Rightarrow> cv_state \<Rightarrow> project_metadata" where
  "publishedMetadata d attemptedName st =
     \<lparr>githubRepoName = Some attemptedName,
      githubRepoUrl = present (data_repoUrl d),
      githubBranch = Some (repoBranch st)\<rparr>"

text \<open>
  Lines 82 to 145. \<open>resp\<close> is what the awaited \<open>fetch\<close> and \<open>res.text()\<close> give: the
  raw body, or a rejection. The \<open>catch\<close> block logs and toasts \<open>Unexpected error\<close>; it is
  reached by a rejection and by \<open>data.success\<close> on \<open>null\<close>. The \<open>finally\<close> block runs
  after every exit, the early \<open>return\<close>s included.
\<close>

definition publishToGitHub ::
  "platform \<Rightarrow> string option \<Rightarrow> nat \<Rightarrow> string promise \<Rightarrow> cv_state \<Rightarrow> effect list" where
  "publishToGitHub env pid now resp st =
     (if files st = [] then [Toast ''No files to publish to GitHub'']
      else
        [SetLoading True,
         Fetch ''/api/github-publish'' POST
           (PublishBody \<lparr>body_repoName = repoNameToUse pid now st,
                         body_files = files st,
                         body_branch = repoBranch st\<rparr>)] @
        (case resp of
           Rejected \<Rightarrow> [ConsoleError, Toast ''Unexpected error'']
         | Fulfilled raw \<Rightarrow>
             (case JSON_parse env raw of
                NotJSON \<Rightarrow> [Toast ''GitHub publish failed'']
              | JNull \<Rightarrow> [ConsoleError, Toast ''Unexpected error'']
              | JValue d \<Rightarrow>
                  if \<not> data_success d
                  then [Toast (or_else (data_error d) ''GitHub publish failed'')]
                  else
                    applyPublishResult env d (repoNameToUse pid now st) @
                    saveRepoMetadata pid
                      (publishedMetadata d (repoNameToUse pid now st) st) @
                    [Toast ''Published successfully!''] @
                    (case present (data_repoUrl d) of
                       Some u \<Rightarrow> [WindowOpen u]
                     | None \<Rightarrow> []))))
     @ [SetLoading False]"

text \<open>Lines 147 to 160. What the clipboard does is an argument of \<open>copyRepoUrl\<close>:
  \<open>navigator.clipboard\<close> may be undefined, so that \<open>navigator.clipboard.writeText\<close>
  throws before anything is written; the write may be made and rejected; or it may be
  made and go through. The first two end in the \<open>catch\<close> block.\<close>

datatype clipboard = NoClipboard | WriteRejected | WriteDone

definition openRepo :: "cv_state \<Rightarrow> effect list" where
  "openRepo st =
     (if repoUrl st = [] then [Toast ''No repo URL available'']
      else [WindowOpen (repoUrl st)])"

definition copyRepoUrl :: "clipboard \<Rightarrow> cv_state \<Rightarrow> effect list" where
  "copyRepoUrl clip st =
     (if repoUrl st = [] then [Toast ''No repo URL to copy'']
      else (case clip of
              NoClipboard \<Rightarrow> [Toast ''Unable to copy URL'']
            | WriteRejected \<Rightarrow> [ClipboardWrite (repoUrl st), Toast ''Unable to copy URL'']
            | WriteDone \<Rightarrow>
                [ClipboardWrite (repoUrl st), Toast ''Repository URL copied to clipboard'']))"

text \<open>Lines 162 to 169. \<open>answer\<close> is what \<open>window.prompt\<close> returns: \<open>None\<close> for
  \<open>null\<close> (cancelled).\<close>

definition changeBranch :: "string option \<Rightarrow> string option \<Rightarrow> cv_state \<Rightarrow> effect list" where
  "changeBranch pid answer st =
     Prompt ''Enter branch name:'' (if repoBranch st \<noteq> [] then repoBranch st else ''main'') #
     (case present answer of
        None \<Rightarrow> []
      | Some newBranch \<Rightarrow>
          [SetRepoBranch newBranch] @
          saveRepoMetadata pid
            \<lparr>githubRepoName = None, githubRepoUrl = None, githubBranch = Some newBranch\<rparr> @
          [Toast (''Branch set to '' @ newBranch)])"

subsection \<open>A session\<close>

text \<open>What can happen to a mounted component, each with the platform's answer.\<close>

datatype event =
    ProjectFiles "file_set option"
  | LoadRepoInfo "load_response promise"
  | ClickPublish nat "string promise"
  | ClickOpenRepo
  | ClickCopyRepoUrl clipboard
  | ClickChangeBranch "string option"

fun handle :: "platform \<Rightarrow> string option \<Rightarrow> cv_state \<Rightarrow> event \<Rightarrow> effect list" where
  "handle env pid st (ProjectFiles pf) = replaceFiles pf"
| "handle env pid st (LoadRepoInfo resp) = loadRepoInfo env pid resp"
| "handle env pid st (ClickPublish now resp) = publishToGitHub env pid now resp st"
| "handle env pid st ClickOpenRepo = openRepo st"
| "handle env pid st (ClickCopyRepoUrl clip) = copyRepoUrl clip st"
| "handle env pid st (ClickChangeBranch answer) = changeBranch pid answer st"

definition step :: "platform \<Rightarrow> string option \<Rightarrow> cv_state \<Rightarrow> event \<Rightarrow> cv_state" where
  "step env pid st ev = apply_effects st (handle env pid st ev)"

definition run :: "platform \<Rightarrow> string option \<Rightarrow> cv_state \<Rightarrow> event list \<Rightarrow> cv_state" where
  "run env pid st evs = foldl (step env pid) st evs"

text \<open>Lines 180 to 222: the buttons that open the repository, copy its url and change
  the branch are rendered only while a repository name is stored.\<close>

definition repo_actions_rendered :: "cv_state \<Rightarrow> bool" where
  "repo_actions_rendered st = (repoName st \<noteq> [])"

text \<open>
  The branch an event sets, in the words of the specification: a metadata load sets the
  branch when it runs (there is a project identifier), its answer arrives, is ok and is
  a record with a non-empty \<open>githubBranch\<close>; an explicit change sets it when the input is
  non-empty; nothing else sets it. \<open>branch_change\<close> below compares the handlers with
  it.
\<close>

fun branch_set_by :: "string option \<Rightarrow> event \<Rightarrow> string option" where
  "branch_set_by pid (LoadRepoInfo (Fulfilled res)) =
     (case present pid of
        None \<Rightarrow> None
      | Some i \<Rightarrow>
          if ok res
          then (case json res of
                  JValue m \<Rightarrow> present (githubBranch m)
                | NotJSON \<Rightarrow> None
                | JNull \<Rightarrow> None)
          else None)"
| "branch_set_by pid (LoadRepoInfo Rejected) = None"
| "branch_set_by pid (ClickChangeBranch answer) = present answer"
| "branch_set_by pid (ProjectFiles pf) = None"
| "branch_set_by pid (ClickPublish now resp) = None"
| "branch_set_by pid ClickOpenRepo = None"
| "branch_set_by pid (ClickCopyRepoUrl clip) = None"

subsection \<open>The repository fields of a state\<close>

definition repo_fields :: "cv_state \<Rightarrow> string \<times> string \<times> string" where
  "repo_fields st = (repoName st, repoUrl st, repoBranch st)"

subsection \<open>Concrete sessions\<close>

text \<open>
  The inputs of the scenarios: a workspace with one file and nothing stored, a workspace
  whose repository is known, bodies the publish endpoint may answer, and the
  platform's answers on the strings that occur in them (\<open>JSON.parse\<close> of the
  bodies, of \<open>null\<close> and of a page of HTML; \<open>new URL(u).pathname\<close> of four
  addresses, and \<open>new URL\<close> throwing on a string that is no address).
\<close>

definition example_files :: file_set where
  "example_files = [(''App.js'', ''...'')]"

definition fresh_workspace :: cv_state where
  "fresh_workspace = (initial_state None)\<lparr>files := example_files\<rparr>"

definition published_workspace :: cv_state where
  "published_workspace =
     \<lparr>files = example_files, loading = False, repoName = ''app'',
      repoUrl = ''https://github.com/acme/app'', repoBranch = ''main''\<rparr>"

definition url_body :: string where
  \<open>url_body = ''{"success":true,"repoUrl":"https://github.com/acme/ai-workspace-p1"}''\<close>

definition renamed_body :: string where
  \<open>renamed_body = ''{"success":true,"repoName":"app2"}''\<close>

definition bare_body :: string where
  \<open>bare_body = ''{"success":true}''\<close>

definition malformed_url_body :: string where
  \<open>malformed_url_body = ''{"success":true,"repoUrl":"not a url"}''\<close>

definition root_url_body :: string where
  \<open>root_url_body = ''{"success":true,"repoUrl":"https://github.com/"}''\<close>

definition refused_body :: string where
  \<open>refused_body = ''{"success":false,"error":"Repository creation failed"}''\<close>

definition given_body :: string where
  \<open>given_body = ''{"success":true,"repoUrl":"not a url","repoName":"given"}''\<close>

definition html_body :: string where
  "html_body = ''<html>Bad Gateway</html>''"

definition example_platform :: platform where
  "example_platform =
     \<lparr>JSON_parse = (\<lambda>raw.
        if raw = url_body
        then JValue \<lparr>data_success = True,
                     data_repoUrl = Some ''https://github.com/acme/ai-workspace-p1'',
                     data_repoName = None, data_error = None\<rparr>
        else if raw = renamed_body
        then JValue \<lparr>data_success = True, data_repoUrl = None,
                     data_repoName = Some ''app2'', data_error = None\<rparr>
        else if raw = bare_body
        then JValue \<lparr>data_success = True, data_repoUrl = None,
                     data_repoName = None, data_error = None\<rparr>
        else if raw = malformed_url_body
        then JValue \<lparr>data_success = True, data_repoUrl = Some ''not a url'',
                     data_repoName = None, data_error = None\<rparr>
        else if raw = root_url_body
        then JValue \<lparr>data_success = True, data_repoUrl = Some ''https://github.com/'',
                     data_repoName = None, data_error = None\<rparr>
        else if raw = refused_body
        then JValue \<lparr>data_success = False, data_repoUrl = None, data_repoName = None,
                     data_error = Some ''Repository creation failed''\<rparr>
        else if raw = given_body
        then JValue \<lparr>data_success = True, data_repoUrl = Some ''not a url'',
                     data_repoName = Some ''given'', data_error = None\<rparr>
        else if raw = ''null'' then JNull
        else NotJSON),
      URL_pathname = (\<lambda>u.
        if u = ''https://github.com/acme/ai-workspace-p1'' then Some ''/acme/ai-workspace-p1''
        else if u = ''https://github.com/acme/app'' then Some ''/acme/app''
        else if u = ''https://host/acme/app'' then Some ''/acme/app''
        else if u = ''https://github.com/'' then Some ''/''
        else None)\<rparr>"

text \<open>Two answers of the metadata \<open>GET\<close>: a record with an address and an outdated
  name, and a record whose address is no address.\<close>

definition loaded_app :: load_response where
  "loaded_app =
     \<lparr>ok = True,
      json = JValue \<lparr>githubRepoName = Some ''old-name'',
                     githubRepoUrl = Some ''https://host/acme/app'',
                     githubBranch = None\<rparr>\<rparr>"

definition loaded_malformed :: load_response where
  "loaded_malformed =
     \<lparr>ok = True,
      json = JValue \<lparr>githubRepoName = Some ''stored-name'',
                     githubRepoUrl = Some ''not a url'',
                     githubBranch = None\<rparr>\<rparr>"

text \<open>An answer of the metadata \<open>GET\<close> that carries a branch.\<close>

definition loaded_dev :: load_response where
  "loaded_dev =
     \<lparr>ok = True,
      json = JValue \<lparr>githubRepoName = None, githubRepoUrl = None,
                     githubBranch = Some ''dev''\<rparr>\<rparr>"

section \<open>Properties\<close>

subsection \<open>Auxiliary facts\<close>

lemma apply_effects_Nil [simp]: "apply_effects st [] = st"
  by (simp add: apply_effects_def)

lemma apply_effects_Cons [simp]:
  "apply_effects st (e # es) = apply_effects (apply_effect st e) es"
  by (simp add: apply_effects_def)

lemma apply_effects_append [simp]:
  "apply_effects st (es @ fs) = apply_effects (apply_effects st es) fs"
  by (simp add: apply_effects_def)

text \<open>\<open>split_on\<close> cuts a string at every separator and nowhere else: joining the
  pieces gives the string back, and no piece holds a separator.\<close>

lemma split_on_nonempty: "split_on c s \<noteq> []"
  by (induction s) (auto split: list.splits)

lemma split_on_join: "join_with c (split_on c s) = s"
proof (induction s)
  case Nil
  show ?case by simp
next
  case (Cons x xs)
  obtain w ws where parts: "split_on c xs = w # ws"
    using split_on_nonempty [of c xs] by (cases "split_on c xs") auto
  with Cons show ?case
    by (cases ws) auto
qed

lemma split_on_no_separator: "w \<in> set (split_on c s) \<Longrightarrow> c \<notin> set w"
proof (induction s arbitrary: w)
  case Nil
  then show ?case by simp
next
  case (Cons x xs)
  obtain v vs where parts: "split_on c xs = v # vs"
    using split_on_nonempty [of c xs] by (cases "split_on c xs") auto
  with Cons show ?case
    by (auto split: if_splits)
qed

lemma toasts_Nil [simp]: "toasts [] = []"
  by (simp add: toasts_def)

lemma toasts_Cons [simp]:
  "toasts (e # es) = (case e of Toast s \<Rightarrow> [s] | _ \<Rightarrow> []) @ toasts es"
  by (simp add: toasts_def)

lemma toasts_append [simp]: "toasts (es @ fs) = toasts es @ toasts fs"
  by (simp add: toasts_def)

lemma requests_Nil [simp]: "requests [] = []"
  by (simp add: requests_def)

lemma requests_Cons [simp]:
  "requests (e # es) = (case e of Fetch u m b \<Rightarrow> [(u, m, b)] | _ \<Rightarrow> []) @ requests es"
  by (simp add: requests_def)

lemma requests_append [simp]: "requests (es @ fs) = requests es @ requests fs"
  by (simp add: requests_def)

lemma metadata_patches_Nil [simp]: "metadata_patches [] = []"
  by (simp add: metadata_patches_def)

lemma metadata_patches_Cons [simp]:
  "metadata_patches (e # es) =
     (case e of Fetch u PATCH b \<Rightarrow> [(u, b)] | _ \<Rightarrow> []) @ metadata_patches es"
  by (simp add: metadata_patches_def)

lemma metadata_patches_append [simp]:
  "metadata_patches (es @ fs) = metadata_patches es @ metadata_patches fs"
  by (simp add: metadata_patches_def)

lemma metadata_updates_Nil [simp]: "metadata_updates [] = []"
  by (simp add: metadata_updates_def)

lemma metadata_updates_Cons [simp]:
  "metadata_updates (e # es) =
     (case e of SetRepoName n \<Rightarrow> [e] | SetRepoUrl u \<Rightarrow> [e] | SetRepoBranch b \<Rightarrow> [e] | _ \<Rightarrow> [])
     @ metadata_updates es"
  by (cases e) (simp_all add: metadata_updates_def)

lemma metadata_updates_append [simp]:
  "metadata_updates (es @ fs) = metadata_updates es @ metadata_updates fs"
  by (simp add: metadata_updates_def)

lemma busy_changes_Nil [simp]: "busy_changes [] = []"
  by (simp add: busy_changes_def)

lemma busy_changes_Cons [simp]:
  "busy_changes (e # es) = (case e of SetLoading b \<Rightarrow> [b] | _ \<Rightarrow> []) @ busy_changes es"
  by (simp add: busy_changes_def)

lemma busy_changes_append [simp]:
  "busy_changes (es @ fs) = busy_changes es @ busy_changes fs"
  by (simp add: busy_changes_def)

text \<open>What the pieces of a handler contribute to each reading of the trace.\<close>

lemma deriveRepoName_reads [simp]:
  "toasts (deriveRepoName env u fb) = []"
  "requests (deriveRepoName env u fb) = []"
  "metadata_patches (deriveRepoName env u fb) = []"
  "busy_changes (deriveRepoName env u fb) = []"
  "metadata_updates (deriveRepoName env u fb) = deriveRepoName env u fb"
  by (simp_all add: deriveRepoName_def split: option.splits)

lemma applyPublishResult_reads [simp]:
  "toasts (applyPublishResult env d n) = []"
  "requests (applyPublishResult env d n) = []"
  "metadata_patches (applyPublishResult env d n) = []"
  "busy_changes (applyPublishResult env d n) = []"
  "metadata_updates (applyPublishResult env d n) = applyPublishResult env d n"
  by (simp_all add: applyPublishResult_def split: option.splits)

lemma applyLoaded_reads [simp]:
  "toasts (applyLoaded env d) = []"
  "requests (applyLoaded env d) = []"
  "metadata_patches (applyLoaded env d) = []"
  "busy_changes (applyLoaded env d) = []"
  "metadata_updates (applyLoaded env d) = applyLoaded env d"
  by (simp_all add: applyLoaded_def split: option.splits)

lemma saveRepoMetadata_reads [simp]:
  "toasts (saveRepoMetadata pid m) = []"
  "busy_changes (saveRepoMetadata pid m) = []"
  "metadata_updates (saveRepoMetadata pid m) = []"
  by (simp_all add: saveRepoMetadata_def split: option.splits)

lemma saveRepoMetadata_requests:
  "requests (saveRepoMetadata pid m) =
     (case present pid of None \<Rightarrow> [] | Some i \<Rightarrow> [(''/api/projects/'' @ i, PATCH, MetadataBody m)])"
  "metadata_patches (saveRepoMetadata pid m) =
     (case present pid of None \<Rightarrow> [] | Some i \<Rightarrow> [(''/api/projects/'' @ i, MetadataBody m)])"
  by (simp_all add: saveRepoMetadata_def split: option.splits)

text \<open>The repository fields and the busy flag after a trace depend on its setter calls
  only.\<close>

lemma loading_apply_effects:
  "loading (apply_effects st es) = (if busy_changes es = [] then loading st else last (busy_changes es))"
proof (induction es arbitrary: st)
  case Nil
  show ?case by simp
next
  case (Cons e es)
  show ?case by (cases e) (simp_all add: Cons.IH)
qed

lemma repo_fields_apply_effect:
  "repo_fields st = repo_fields st' \<Longrightarrow> repo_fields (apply_effect st e) = repo_fields (apply_effect st' e)"
  by (cases e) (simp_all add: repo_fields_def)

lemma repo_fields_cong:
  "repo_fields st = repo_fields st' \<Longrightarrow>
   repo_fields (apply_effects st es) = repo_fields (apply_effects st' es)"
proof (induction es arbitrary: st st')
  case Nil
  then show ?case by simp
next
  case (Cons e es)
  from Cons.prems have "repo_fields (apply_effect st e) = repo_fields (apply_effect st' e)"
    by (rule repo_fields_apply_effect)
  then have "repo_fields (apply_effects (apply_effect st e) es)
             = repo_fields (apply_effects (apply_effect st' e) es)"
    by (rule Cons.IH)
  then show ?case by simp
qed

lemma repo_fields_updates:
  "repo_fields (apply_effects st es) = repo_fields (apply_effects st (metadata_updates es))"
proof (induction es arbitrary: st)
  case Nil
  show ?case by simp
next
  case (Cons e es)
  have step: "repo_fields (apply_effects (apply_effect st e) es)
              = repo_fields (apply_effects (apply_effect st e) (metadata_updates es))"
    by (rule Cons.IH)
  show ?case
  proof (cases "metadata_updates [e] = []")
    case True
    then have "repo_fields (apply_effect st e) = repo_fields st"
      by (cases e) (simp_all add: repo_fields_def)
    then have "repo_fields (apply_effects (apply_effect st e) (metadata_updates es))
               = repo_fields (apply_effects st (metadata_updates es))"
      by (rule repo_fields_cong)
    moreover from True have "metadata_updates (e # es) = metadata_updates es"
      by (cases e) simp_all
    ultimately show ?thesis using step by simp
  next
    case False
    then have "metadata_updates (e # es) = e # metadata_updates es"
      by (cases e) simp_all
    then show ?thesis using step by simp
  qed
qed

lemma repo_apply_effects:
  "repoName (apply_effects st es) = repoName (apply_effects st (metadata_updates es))"
  "repoUrl (apply_effects st es) = repoUrl (apply_effects st (metadata_updates es))"
  "repoBranch (apply_effects st es) = repoBranch (apply_effects st (metadata_updates es))"
  using repo_fields_updates [of st es] by (simp_all add: repo_fields_def)

text \<open>The shape of the trace of a publish on each path.\<close>

lemma publish_empty:
  "files st = [] \<Longrightarrow>
   publishToGitHub env pid now resp st = [Toast ''No files to publish to GitHub'', SetLoading False]"
  by (simp add: publishToGitHub_def)

lemma publish_success:
  "files st \<noteq> [] \<Longrightarrow> JSON_parse env raw = JValue d \<Longrightarrow> data_success d \<Longrightarrow>
   publishToGitHub env pid now (Fulfilled raw) st =
     [SetLoading True,
      Fetch ''/api/github-publish'' POST
        (PublishBody \<lparr>body_repoName = repoNameToUse pid now st, body_files = files st,
                      body_branch = repoBranch st\<rparr>)] @
     applyPublishResult env d (repoNameToUse pid now st) @
     saveRepoMetadata pid (publishedMetadata d (repoNameToUse pid now st) st) @
     [Toast ''Published successfully!''] @
     (case present (data_repoUrl d) of Some u \<Rightarrow> [WindowOpen u] | None \<Rightarrow> []) @
     [SetLoading False]"
  by (simp add: publishToGitHub_def)

lemma publish_busy_changes:
  "files st \<noteq> [] \<Longrightarrow> busy_changes (publishToGitHub env pid now resp st) = [True, False]"
  by (simp add: publishToGitHub_def split: promise.splits parsed.splits option.splits)

lemma file_changes_Nil [simp]: "file_changes [] = []"
  by (simp add: file_changes_def)

lemma file_changes_Cons [simp]:
  "file_changes (e # es) = (case e of SetFiles f \<Rightarrow> [f] | _ \<Rightarrow> []) @ file_changes es"
  by (simp add: file_changes_def)

lemma file_changes_append [simp]:
  "file_changes (es @ fs) = file_changes es @ file_changes fs"
  by (simp add: file_changes_def)

lemma files_apply_effects:
  "files (apply_effects st es) = (if file_changes es = [] then files st else last (file_changes es))"
proof (induction es arbitrary: st)
  case Nil
  show ?case by simp
next
  case (Cons e es)
  show ?case by (cases e) (simp_all add: Cons.IH)
qed

lemma file_changes_parts [simp]:
  "file_changes (deriveRepoName env u fb) = []"
  "file_changes (applyPublishResult env d n) = []"
  "file_changes (applyLoaded env m) = []"
  "file_changes (saveRepoMetadata pid m) = []"
  by (simp_all add: deriveRepoName_def applyPublishResult_def applyLoaded_def
        saveRepoMetadata_def split: option.splits)

lemma file_changes_handle:
  "file_changes (handle env pid st ev) =
     (case ev of ProjectFiles pf \<Rightarrow> file_changes (replaceFiles pf) | _ \<Rightarrow> [])"
  by (cases ev)
     (simp_all add: loadRepoInfo_def publishToGitHub_def openRepo_def copyRepoUrl_def
        changeBranch_def split: option.splits promise.splits parsed.splits clipboard.splits)

lemma file_changes_replaceFiles:
  "file_changes (replaceFiles pf) = (case pf of None \<Rightarrow> [] | Some f \<Rightarrow> if f = [] then [] else [f])"
  by (simp add: replaceFiles_def split: option.splits)

lemma files_step:
  "files (step env pid st ev) =
     (case ev of
        ProjectFiles (Some f) \<Rightarrow> if f = [] then files st else f
      | _ \<Rightarrow> files st)"
  by (simp add: step_def files_apply_effects file_changes_handle file_changes_replaceFiles
        split: event.splits option.splits)

lemma run_Nil [simp]: "run env pid st [] = st"
  by (simp add: run_def)

lemma run_Cons [simp]: "run env pid st (ev # evs) = run env pid (step env pid st ev) evs"
  by (simp add: run_def)

lemma files_run_nonempty: "files st \<noteq> [] \<Longrightarrow> files (run env pid st evs) \<noteq> []"
proof (induction evs arbitrary: st)
  case Nil
  then show ?case by simp
next
  case (Cons ev evs)
  from Cons.prems have "files (step env pid st ev) \<noteq> []"
    by (simp add: files_step split: event.splits option.splits)
  then show ?case by (simp add: Cons.IH)
qed

lemma or_else_cases:
  "or_else v d = (case v of None \<Rightarrow> d | Some s \<Rightarrow> if s = [] then d else s)"
  by (simp add: or_else_def present_def split: option.splits)

lemma publish_requests_head:
  "files st \<noteq> [] \<Longrightarrow>
   take 1 (requests (publishToGitHub env pid now resp st)) =
     [(''/api/github-publish'', POST,
       PublishBody \<lparr>body_repoName = repoNameToUse pid now st, body_files = files st,
                     body_branch = repoBranch st\<rparr>)]"
  by (simp add: publishToGitHub_def)

lemma show_nat_example: "show_nat 1700000000000 = ''1700000000000''"
  by (simp add: show_nat.simps digit_char_def)

lemma repoName_deriveRepoName:
  "repoName (apply_effects st (deriveRepoName env u fb)) =
     (case URL_pathname env u of
        Some p \<Rightarrow> if path_segments p = [] then repoName st else last (path_segments p)
      | None \<Rightarrow> or_else fb (repoName st))"
  by (simp add: deriveRepoName_def pop_def or_else_def split: option.splits list.splits)

lemma repoUrl_deriveRepoName [simp]:
  "repoUrl (apply_effects st (deriveRepoName env u fb)) = repoUrl st"
  by (simp add: deriveRepoName_def split: option.splits)

lemma repoBranch_deriveRepoName [simp]:
  "repoBranch (apply_effects st (deriveRepoName env u fb)) = repoBranch st"
  by (simp add: deriveRepoName_def split: option.splits)

lemma repoBranch_applyPublishResult [simp]:
  "repoBranch (apply_effects st (applyPublishResult env d n)) = repoBranch st"
  by (simp add: applyPublishResult_def split: option.splits)

lemma applyPublishResult_nonempty: "applyPublishResult env d n \<noteq> []"
  by (simp add: applyPublishResult_def split: option.splits)

lemma loadRepoInfo_loaded:
  "present pid = Some i \<Longrightarrow> ok res \<Longrightarrow> json res = JValue m \<Longrightarrow>
   loadRepoInfo env pid (Fulfilled res) =
     Fetch (''/api/projects/'' @ i) GET NoBody # applyLoaded env m"
  by (simp add: loadRepoInfo_def)

lemma repoName_applyLoaded_url:
  "present (githubRepoUrl m) = Some u \<Longrightarrow>
   repoName (apply_effects st (applyLoaded env m)) =
     repoName (apply_effects (st\<lparr>repoUrl := u\<rparr>) (deriveRepoName env u (githubRepoName m)))"
  by (simp add: applyLoaded_def split: option.splits)

lemma publish_success_updates:
  "files st \<noteq> [] \<Longrightarrow> JSON_parse env raw = JValue d \<Longrightarrow> data_success d \<Longrightarrow>
   metadata_updates (publishToGitHub env pid now (Fulfilled raw) st) =
     applyPublishResult env d (repoNameToUse pid now st)"
  by (simp add: publish_success split: option.splits)

lemma publish_success_patches:
  "files st \<noteq> [] \<Longrightarrow> JSON_parse env raw = JValue d \<Longrightarrow> data_success d \<Longrightarrow>
   metadata_patches (publishToGitHub env pid now (Fulfilled raw) st) =
     metadata_patches (saveRepoMetadata pid (publishedMetadata d (repoNameToUse pid now st) st))"
  by (simp add: publish_success split: option.splits)

lemma publish_success_requests:
  "files st \<noteq> [] \<Longrightarrow> JSON_parse env raw = JValue d \<Longrightarrow> data_success d \<Longrightarrow>
   requests (publishToGitHub env pid now (Fulfilled raw) st) =
     (''/api/github-publish'', POST,
       PublishBody \<lparr>body_repoName = repoNameToUse pid now st, body_files = files st,
                     body_branch = repoBranch st\<rparr>) #
     requests (saveRepoMetadata pid (publishedMetadata d (repoNameToUse pid now st) st))"
  by (simp add: publish_success split: option.splits)

lemma publish_success_toasts:
  "files st \<noteq> [] \<Longrightarrow> JSON_parse env raw = JValue d \<Longrightarrow> data_success d \<Longrightarrow>
   toasts (publishToGitHub env pid now (Fulfilled raw) st) = [''Published successfully!'']"
  by (simp add: publish_success split: option.splits)

lemma publish_success_repo:
  assumes "files st \<noteq> []" "JSON_parse env raw = JValue d" "data_success d"
  shows "repoName (apply_effects st (publishToGitHub env pid now (Fulfilled raw) st)) =
           repoName (apply_effects st (applyPublishResult env d (repoNameToUse pid now st)))"
    and "repoUrl (apply_effects st (publishToGitHub env pid now (Fulfilled raw) st)) =
           repoUrl (apply_effects st (applyPublishResult env d (repoNameToUse pid now st)))"
    and "repoBranch (apply_effects st (publishToGitHub env pid now (Fulfilled raw) st)) =
           repoBranch st"
  using publish_success_updates [OF assms, of pid now]
    repo_apply_effects [of st "publishToGitHub env pid now (Fulfilled raw) st"]
  by simp_all

lemma parse_examples:
  "JSON_parse example_platform url_body =
     JValue \<lparr>data_success = True,
              data_repoUrl = Some ''https://github.com/acme/ai-workspace-p1'',
              data_repoName = None, data_error = None\<rparr>"
  "JSON_parse example_platform renamed_body =
     JValue \<lparr>data_success = True, data_repoUrl = None,
              data_repoName = Some ''app2'', data_error = None\<rparr>"
  "JSON_parse example_platform bare_body =
     JValue \<lparr>data_success = True, data_repoUrl = None,
              data_repoName = None, data_error = None\<rparr>"
  "JSON_parse example_platform malformed_url_body =
     JValue \<lparr>data_success = True, data_repoUrl = Some ''not a url'',
              data_repoName = None, data_error = None\<rparr>"
  "JSON_parse example_platform root_url_body =
     JValue \<lparr>data_success = True, data_repoUrl = Some ''https://github.com/'',
              data_repoName = None, data_error = None\<rparr>"
  "JSON_parse example_platform given_body =
     JValue \<lparr>data_success = True, data_repoUrl = Some ''not a url'',
              data_repoName = Some ''given'', data_error = None\<rparr>"
  by (simp_all add: example_platform_def url_body_def renamed_body_def bare_body_def
        malformed_url_body_def root_url_body_def refused_body_def given_body_def)

lemma pathname_examples:
  "URL_pathname example_platform ''https://github.com/acme/ai-workspace-p1'' = Some ''/acme/ai-workspace-p1''"
  "URL_pathname example_platform ''https://host/acme/app'' = Some ''/acme/app''"
  "URL_pathname example_platform ''not a url'' = None"
  "URL_pathname example_platform ''https://github.com/'' = Some ''/''"
  by (simp_all add: example_platform_def)

lemma segments_examples:
  "path_segments ''/acme/ai-workspace-p1'' = [''acme'', ''ai-workspace-p1'']"
  "path_segments ''/acme/app'' = [''acme'', ''app'']"
  by (simp_all add: path_segments_def)

lemma workspace_examples:
  "files fresh_workspace = [(''App.js'', ''...'')]" "repoName fresh_workspace = []"
  "repoUrl fresh_workspace = []" "repoBranch fresh_workspace = ''main''"
  "files published_workspace = [(''App.js'', ''...'')]" "repoName published_workspace = ''app''"
  "repoUrl published_workspace = ''https://github.com/acme/app''"
  "repoBranch published_workspace = ''main''"
  by (simp_all add: fresh_workspace_def published_workspace_def example_files_def
        initial_state_def)

lemma present_simps:
  "present None = None" "present (Some []) = None" "present (Some (c # cs)) = Some (c # cs)"
  by (simp_all add: present_def)

lemma publish_updates_cases:
  "metadata_updates (publishToGitHub env pid now resp st) = [] \<or>
   (\<exists>d. metadata_updates (publishToGitHub env pid now resp st) =
          applyPublishResult env d (repoNameToUse pid now st))"
  by (auto simp: publishToGitHub_def split: promise.splits parsed.splits option.splits)

lemma publish_branch:
  "repoBranch (apply_effects st (publishToGitHub env pid now resp st)) = repoBranch st"
  using publish_updates_cases [of env pid now resp st]
    repo_apply_effects(3) [of st "publishToGitHub env pid now resp st"]
  by auto

lemma branch_changes_Nil [simp]: "branch_changes [] = []"
  by (simp add: branch_changes_def)

lemma branch_changes_Cons [simp]:
  "branch_changes (e # es) = (case e of SetRepoBranch b \<Rightarrow> [b] | _ \<Rightarrow> []) @ branch_changes es"
  by (simp add: branch_changes_def)

lemma branch_changes_append [simp]:
  "branch_changes (es @ fs) = branch_changes es @ branch_changes fs"
  by (simp add: branch_changes_def)

lemma repoBranch_apply_effects:
  "repoBranch (apply_effects st es) =
     (if branch_changes es = [] then repoBranch st else last (branch_changes es))"
proof (induction es arbitrary: st)
  case Nil
  show ?case by simp
next
  case (Cons e es)
  show ?case by (cases e) (simp_all add: Cons.IH)
qed

lemma branch_changes_parts [simp]:
  "branch_changes (deriveRepoName env u fb) = []"
  "branch_changes (applyPublishResult env d n) = []"
  "branch_changes (saveRepoMetadata pid m) = []"
  by (simp_all add: deriveRepoName_def applyPublishResult_def saveRepoMetadata_def
        split: option.splits)

lemma branch_changes_applyLoaded:
  "branch_changes (applyLoaded env m) =
     (case present (githubBranch m) of None \<Rightarrow> [] | Some b \<Rightarrow> [b])"
  by (simp add: applyLoaded_def split: option.splits)

lemma branch_changes_publish [simp]:
  "branch_changes (publishToGitHub env pid now resp st) = []"
  by (simp add: publishToGitHub_def split: promise.splits parsed.splits option.splits)

lemma branch_changes_handle:
  "branch_changes (handle env pid st ev) =
     (case branch_set_by pid ev of None \<Rightarrow> [] | Some b \<Rightarrow> [b])"
proof (cases ev)
  case (LoadRepoInfo resp)
  then show ?thesis
    by (cases resp)
       (simp_all add: loadRepoInfo_def branch_changes_applyLoaded
          split: option.splits parsed.splits)
next
  case (ClickCopyRepoUrl clip)
  then show ?thesis
    by (simp add: copyRepoUrl_def split: clipboard.splits)
qed (simp_all add: replaceFiles_def openRepo_def changeBranch_def split: option.splits)

lemma step_branch:
  "repoBranch (step env pid st ev) =
     (case branch_set_by pid ev of None \<Rightarrow> repoBranch st | Some b \<Rightarrow> b)"
  by (simp add: step_def repoBranch_apply_effects branch_changes_handle split: option.splits)

lemma run_branch:
  "list_all (\<lambda>ev. branch_set_by pid ev = None) evs \<Longrightarrow>
   repoBranch (run env pid st evs) = repoBranch st"
proof (induction evs arbitrary: st)
  case Nil
  show ?case by simp
next
  case (Cons ev evs)
  then show ?case by (simp add: step_branch)
qed

lemma metadata_patches_handle:
  "present pid = None \<Longrightarrow> metadata_patches (handle env pid st ev) = []"
  by (cases ev)
     (simp_all add: replaceFiles_def loadRepoInfo_def publishToGitHub_def openRepo_def
        copyRepoUrl_def changeBranch_def saveRepoMetadata_def
        split: option.splits promise.splits parsed.splits clipboard.splits)

lemma repo_fields_after:
  "metadata_updates es = [SetRepoUrl u, SetRepoName n] \<Longrightarrow>
     repo_fields (apply_effects store es) = (n, u, repoBranch store)"
  "metadata_updates es = [SetRepoUrl u] \<Longrightarrow>
     repo_fields (apply_effects store es) = (repoName store, u, repoBranch store)"
  "metadata_updates es = [SetRepoName n] \<Longrightarrow>
     repo_fields (apply_effects store es) = (n, repoUrl store, repoBranch store)"
  using repo_fields_updates [of store es] by (simp_all add: repo_fields_def)

lemma applyPublishResult_cases:
  "present (data_repoUrl d) = Some u \<Longrightarrow> URL_pathname env u = Some p \<Longrightarrow>
     path_segments p \<noteq> [] \<Longrightarrow>
     applyPublishResult env d a = [SetRepoUrl u, SetRepoName (last (path_segments p))]"
  "present (data_repoUrl d) = Some u \<Longrightarrow> URL_pathname env u = Some p \<Longrightarrow>
     path_segments p = [] \<Longrightarrow> applyPublishResult env d a = [SetRepoUrl u]"
  "present (data_repoUrl d) = Some u \<Longrightarrow> URL_pathname env u = None \<Longrightarrow>
     present (data_repoName d) = Some n \<Longrightarrow>
     applyPublishResult env d a = [SetRepoUrl u, SetRepoName n]"
  "present (data_repoUrl d) = Some u \<Longrightarrow> URL_pathname env u = None \<Longrightarrow>
     present (data_repoName d) = None \<Longrightarrow> applyPublishResult env d a = [SetRepoUrl u]"
  "present (data_repoUrl d) = None \<Longrightarrow> present (data_repoName d) = Some n \<Longrightarrow>
     applyPublishResult env d a = [SetRepoName n]"
  "present (data_repoUrl d) = None \<Longrightarrow> present (data_repoName d) = None \<Longrightarrow>
     applyPublishResult env d a = [SetRepoName a]"
  by (simp_all add: applyPublishResult_def deriveRepoName_def pop_def split: list.splits)

subsection \<open>The busy flag\<close>

text \<open>
  C2. A publish triggered on a non-empty file set raises the busy flag once and clears it
  once, whatever the network call and the body do: the call may reject, the body may be
  no JSON, \<open>null\<close>, a refusal or a success. The clearing is the last call of the
  handler, and the flag is down in the state that results.
\<close>

theorem publish_clears_busy:
  assumes "files st \<noteq> []"
  shows "busy_changes (publishToGitHub env pid now resp st) = [True, False]
       \<and> last (publishToGitHub env pid now resp st) = SetLoading False
       \<and> \<not> loading (apply_effects st (publishToGitHub env pid now resp st))"
  using assms
  by (simp add: loading_apply_effects publish_busy_changes) (simp add: publishToGitHub_def)

theorem publish_clears_busy_witness:
  "files fresh_workspace \<noteq> []
   \<and> busy_changes (publishToGitHub example_platform (Some ''p1'') 0 Rejected fresh_workspace)
       = [True, False]
   \<and> last (publishToGitHub example_platform (Some ''p1'') 0 Rejected fresh_workspace)
       = SetLoading False
   \<and> \<not> loading (apply_effects fresh_workspace
          (publishToGitHub example_platform (Some ''p1'') 0 Rejected fresh_workspace))
   \<and> \<not> loading (apply_effects fresh_workspace
          (publishToGitHub example_platform (Some ''p1'') 0 (Fulfilled html_body) fresh_workspace))
   \<and> \<not> loading (apply_effects fresh_workspace
          (publishToGitHub example_platform (Some ''p1'') 0 (Fulfilled ''null'') fresh_workspace))
   \<and> \<not> loading (apply_effects fresh_workspace
          (publishToGitHub example_platform (Some ''p1'') 0 (Fulfilled refused_body) fresh_workspace))
   \<and> \<not> loading (apply_effects fresh_workspace
          (publishToGitHub example_platform (Some ''p1'') 0 (Fulfilled url_body) fresh_workspace))"
proof -
  have nonempty: "files fresh_workspace \<noteq> []"
    by (simp add: fresh_workspace_def example_files_def)
  from nonempty
    publish_clears_busy [OF nonempty, of example_platform "Some ''p1''" 0 Rejected]
    publish_clears_busy [OF nonempty, of example_platform "Some ''p1''" 0 "Fulfilled html_body"]
    publish_clears_busy [OF nonempty, of example_platform "Some ''p1''" 0 "Fulfilled ''null''"]
    publish_clears_busy [OF nonempty, of example_platform "Some ''p1''" 0 "Fulfilled refused_body"]
    publish_clears_busy [OF nonempty, of example_platform "Some ''p1''" 0 "Fulfilled url_body"]
  show ?thesis by blast
qed

subsection \<open>Nothing to publish\<close>

text \<open>
  C6. A publish triggered on an empty file set makes no network request (no publish
  \<open>POST\<close>, no metadata \<open>PATCH\<close>), emits the one notice \<open>No files to publish to GitHub\<close>,
  never raises the busy flag (its only call of \<open>setLoading\<close> is the clearing one), leaves
  the repository fields alone and ends with the flag down.
\<close>

theorem publish_nothing_to_publish:
  assumes "files st = []"
  shows "requests (publishToGitHub env pid now resp st) = []
       \<and> toasts (publishToGitHub env pid now resp st) = [''No files to publish to GitHub'']
       \<and> busy_changes (publishToGitHub env pid now resp st) = [False]
       \<and> metadata_updates (publishToGitHub env pid now resp st) = []
       \<and> \<not> loading (apply_effects st (publishToGitHub env pid now resp st))"
  using assms by (simp add: publish_empty)

theorem publish_nothing_to_publish_witness:
  "files (initial_state None) = []
   \<and> requests (publishToGitHub example_platform (Some ''p1'') 0 (Fulfilled url_body)
        (initial_state None)) = []
   \<and> toasts (publishToGitHub example_platform (Some ''p1'') 0 (Fulfilled url_body)
        (initial_state None)) = [''No files to publish to GitHub'']
   \<and> busy_changes (publishToGitHub example_platform (Some ''p1'') 0 (Fulfilled url_body)
        (initial_state None)) = [False]"
proof -
  have empty: "files (initial_state None) = []"
    by (simp add: initial_state_def)
  from empty
    publish_nothing_to_publish [OF empty, of example_platform "Some ''p1''" 0 "Fulfilled url_body"]
  show ?thesis by simp
qed

subsection \<open>A body that is no JSON\<close>

text \<open>
  C5. When the body of the publish answer is not JSON (\<open>JSON.parse\<close> throws), the
  handler emits exactly one notice, \<open>GitHub publish failed\<close>, calls no setter of the
  repository fields, so that name, url and branch are what they were, sends no metadata
  \<open>PATCH\<close>, and ends with the busy flag down.
\<close>

theorem publish_malformed_body:
  assumes "files st \<noteq> []" and "JSON_parse env raw = NotJSON"
  shows "toasts (publishToGitHub env pid now (Fulfilled raw) st) = [''GitHub publish failed'']
       \<and> metadata_updates (publishToGitHub env pid now (Fulfilled raw) st) = []
       \<and> repoName (apply_effects st (publishToGitHub env pid now (Fulfilled raw) st)) = repoName st
       \<and> repoUrl (apply_effects st (publishToGitHub env pid now (Fulfilled raw) st)) = repoUrl st
       \<and> repoBranch (apply_effects st (publishToGitHub env pid now (Fulfilled raw) st)) = repoBranch st
       \<and> metadata_patches (publishToGitHub env pid now (Fulfilled raw) st) = []
       \<and> \<not> loading (apply_effects st (publishToGitHub env pid now (Fulfilled raw) st))"
  using assms by (simp add: publishToGitHub_def)

theorem publish_malformed_body_witness:
  "files published_workspace \<noteq> []
   \<and> JSON_parse example_platform html_body = NotJSON
   \<and> toasts (publishToGitHub example_platform (Some ''p1'') 0 (Fulfilled html_body)
        published_workspace) = [''GitHub publish failed'']
   \<and> repo_fields (apply_effects published_workspace
        (publishToGitHub example_platform (Some ''p1'') 0 (Fulfilled html_body)
           published_workspace))
       = (''app'', ''https://github.com/acme/app'', ''main'')
   \<and> metadata_patches (publishToGitHub example_platform (Some ''p1'') 0 (Fulfilled html_body)
        published_workspace) = []"
proof -
  have nonempty: "files published_workspace \<noteq> []"
    by (simp add: published_workspace_def example_files_def)
  have malformed: "JSON_parse example_platform html_body = NotJSON"
    by (simp add: example_platform_def html_body_def url_body_def renamed_body_def
          bare_body_def malformed_url_body_def root_url_body_def refused_body_def
          given_body_def)
  from nonempty malformed
    publish_malformed_body [OF nonempty malformed, of "Some ''p1''" 0]
  show ?thesis by (simp add: repo_fields_def) (simp add: published_workspace_def)
qed

subsection \<open>The file set\<close>

text \<open>
  C7. The file set is replaced by a non-empty incoming snapshot only: an update that is
  absent or empty calls no setter and leaves the state as it is; whenever a step of the
  session changes the file set, the step is an update with a non-empty snapshot, which
  is the new file set; and so a workspace that holds files holds files after any
  sequence of events.
\<close>

theorem files_never_emptied:
  "(projectFiles = None \<or> projectFiles = Some [] \<longrightarrow>
      replaceFiles projectFiles = [] \<and> step env pid st (ProjectFiles projectFiles) = st)
   \<and> (files (step env pid st ev) \<noteq> files st \<longrightarrow>
        files (step env pid st ev) \<noteq> [] \<and> ev = ProjectFiles (Some (files (step env pid st ev))))
   \<and> (files st \<noteq> [] \<longrightarrow> files (run env pid st evs) \<noteq> [])"
proof (intro conjI impI)
  assume "projectFiles = None \<or> projectFiles = Some []"
  then show "replaceFiles projectFiles = []"
    by (auto simp: replaceFiles_def)
  then show "step env pid st (ProjectFiles projectFiles) = st"
    by (simp add: step_def)
next
  assume changed: "files (step env pid st ev) \<noteq> files st"
  then show "files (step env pid st ev) \<noteq> []"
    by (auto simp: files_step split: event.splits option.splits if_splits)
  from changed show "ev = ProjectFiles (Some (files (step env pid st ev)))"
    by (auto simp: files_step split: event.splits option.splits if_splits)
next
  assume "files st \<noteq> []"
  then show "files (run env pid st evs) \<noteq> []"
    by (rule files_run_nonempty)
qed

theorem files_never_emptied_witness:
  "(Some [] = None \<or> Some [] = Some ([] :: file_set))
   \<and> step example_platform (Some ''p1'') published_workspace (ProjectFiles (Some [])) = published_workspace
   \<and> files (step example_platform (Some ''p1'') (initial_state None)
        (ProjectFiles (Some example_files))) \<noteq> files (initial_state None)
   \<and> files (step example_platform (Some ''p1'') (initial_state None)
        (ProjectFiles (Some example_files))) = example_files
   \<and> files published_workspace \<noteq> []
   \<and> files (run example_platform (Some ''p1'') published_workspace
        [ProjectFiles (Some []), ClickPublish 0 Rejected, ProjectFiles None]) \<noteq> []"
proof -
  have nonempty: "files published_workspace \<noteq> []"
    by (simp add: published_workspace_def example_files_def)
  have changed: "files (step example_platform (Some ''p1'') (initial_state None)
        (ProjectFiles (Some example_files))) \<noteq> files (initial_state None)"
    by (simp add: step_def replaceFiles_def initial_state_def example_files_def)
  note empty_update =
    files_never_emptied [of "Some []" example_platform "Some ''p1''" published_workspace
      "ProjectFiles (Some [])" "[ProjectFiles (Some []), ClickPublish 0 Rejected, ProjectFiles None]"]
  note first_update =
    files_never_emptied [of "Some []" example_platform "Some ''p1''" "initial_state None"
      "ProjectFiles (Some example_files)" "[]"]
  from empty_update
  have ignored: "step example_platform (Some ''p1'') published_workspace (ProjectFiles (Some []))
      = published_workspace"
    by blast
  from empty_update nonempty
  have kept: "files (run example_platform (Some ''p1'') published_workspace
        [ProjectFiles (Some []), ClickPublish 0 Rejected, ProjectFiles None]) \<noteq> []"
    by blast
  from first_update changed
  have "ProjectFiles (Some example_files) =
      ProjectFiles (Some (files (step example_platform (Some ''p1'') (initial_state None)
        (ProjectFiles (Some example_files)))))"
    by blast
  then have taken: "files (step example_platform (Some ''p1'') (initial_state None)
        (ProjectFiles (Some example_files))) = example_files"
    by simp
  from nonempty changed ignored kept taken show ?thesis
    by blast
qed

subsection \<open>The name a publish sends\<close>

text \<open>
  C8. A publish triggered on a non-empty file set first sends the publish request, whose
  \<open>repoName\<close> is \<open>repoNameToUse\<close>: the stored name when that is non-empty; otherwise
  \<open>ai-workspace-\<close> followed by the project identifier when there is one (\<open>p1\<close> gives
  \<open>ai-workspace-p1\<close>), and by the clock's reading in decimal when there is none.
\<close>

theorem publish_repo_name:
  assumes "files st \<noteq> []"
  shows "take 1 (requests (publishToGitHub env pid now resp st)) =
           [(''/api/github-publish'', POST,
             PublishBody \<lparr>body_repoName = repoNameToUse pid now st, body_files = files st,
                           body_branch = repoBranch st\<rparr>)]
       \<and> (repoName st \<noteq> [] \<longrightarrow> repoNameToUse pid now st = repoName st)
       \<and> (repoName st = [] \<longrightarrow> pid = Some i \<longrightarrow> i \<noteq> [] \<longrightarrow>
            repoNameToUse pid now st = ''ai-workspace-'' @ i)
       \<and> (repoName st = [] \<longrightarrow> \<not> truthy pid \<longrightarrow>
            repoNameToUse pid now st = ''ai-workspace-'' @ show_nat now)"
proof -
  have "repoName st \<noteq> [] \<longrightarrow> repoNameToUse pid now st = repoName st"
    by (simp add: repoNameToUse_def)
  moreover have "repoName st = [] \<longrightarrow> pid = Some i \<longrightarrow> i \<noteq> [] \<longrightarrow>
      repoNameToUse pid now st = ''ai-workspace-'' @ i"
    by (simp add: repoNameToUse_def or_else_cases)
  moreover have "repoName st = [] \<longrightarrow> \<not> truthy pid \<longrightarrow>
      repoNameToUse pid now st = ''ai-workspace-'' @ show_nat now"
    by (simp add: repoNameToUse_def or_else_def truthy_def)
  ultimately show ?thesis
    using publish_requests_head [OF assms] by blast
qed

theorem publish_repo_name_witness:
  "files fresh_workspace \<noteq> [] \<and> repoName fresh_workspace = [] \<and> ''p1'' \<noteq> []
   \<and> take 1 (requests (publishToGitHub example_platform (Some ''p1'') 1700000000000
        (Fulfilled url_body) fresh_workspace)) =
       [(''/api/github-publish'', POST,
         PublishBody \<lparr>body_repoName = ''ai-workspace-p1'', body_files = [(''App.js'', ''...'')],
                       body_branch = ''main''\<rparr>)]
   \<and> repoNameToUse (Some ''p1'') 1700000000000 fresh_workspace = ''ai-workspace-p1''
   \<and> \<not> truthy None
   \<and> repoNameToUse None 1700000000000 fresh_workspace = ''ai-workspace-1700000000000''
   \<and> files published_workspace \<noteq> [] \<and> repoName published_workspace \<noteq> []
   \<and> repoNameToUse (Some ''p1'') 1700000000000 published_workspace = ''app''"
proof -
  have fresh: "files fresh_workspace \<noteq> []" "repoName fresh_workspace = []"
    "files fresh_workspace = [(''App.js'', ''...'')]" "repoBranch fresh_workspace = ''main''"
    by (simp_all add: fresh_workspace_def example_files_def initial_state_def)
  have stored: "files published_workspace \<noteq> []" "repoName published_workspace = ''app''"
    by (simp_all add: published_workspace_def example_files_def)
  have absent: "\<not> truthy None"
    by (simp add: truthy_def present_def)
  from fresh stored absent
    publish_repo_name [OF fresh(1), of example_platform "Some ''p1''" 1700000000000
      "Fulfilled url_body" "''p1''"]
    publish_repo_name [OF fresh(1), of example_platform None 1700000000000
      "Fulfilled url_body" "''p1''"]
    publish_repo_name [OF stored(1), of example_platform "Some ''p1''" 1700000000000
      "Fulfilled url_body" "''p1''"]
  show ?thesis by (simp add: show_nat_example)
qed


subsection \<open>Deriving the name from the url\<close>

text \<open>
  C4 does not hold as worded. Let a publish from a workspace that holds the name \<open>app\<close>
  be answered with the url \<open>https://github.com/\<close>. The url parses, with the path \<open>/\<close>,
  which has no non-empty segment: the store takes the url and keeps the name \<open>app\<close>,
  which is no segment of the url's path, so the stored name is not overridden.
\<close>

theorem name_derivation_counterexample:
  "URL_pathname example_platform ''https://github.com/'' = Some ''/''
   \<and> pop (path_segments ''/'') = None
   \<and> repo_fields (apply_effects published_workspace
        (publishToGitHub example_platform (Some ''p1'') 0 (Fulfilled root_url_body)
           published_workspace))
       = (''app'', ''https://github.com/'', ''main'')
   \<and> ''app'' \<notin> set (path_segments ''/'')"
proof -
  have stored: "files published_workspace \<noteq> []"
    by (simp add: workspace_examples)
  have root: "URL_pathname example_platform ''https://github.com/'' = Some ''/''"
    by (simp add: example_platform_def)
  have segments: "path_segments ''/'' = []"
    by (simp add: path_segments_def)
  have updates: "metadata_updates
      (publishToGitHub example_platform (Some ''p1'') 0 (Fulfilled root_url_body)
         published_workspace) = [SetRepoUrl ''https://github.com/'']"
    by (simp add: publish_success_updates [OF stored parse_examples(5)] applyPublishResult_def
          deriveRepoName_def present_simps root segments pop_def)
  have "repo_fields (apply_effects published_workspace
        (publishToGitHub example_platform (Some ''p1'') 0 (Fulfilled root_url_body)
           published_workspace))
       = (''app'', ''https://github.com/'', ''main'')"
    by (simp add: repo_fields_updates [of published_workspace
          "publishToGitHub example_platform (Some ''p1'') 0 (Fulfilled root_url_body)
             published_workspace"] updates)
       (simp add: repo_fields_def workspace_examples)
  with root segments show ?thesis
    by (simp add: pop_def)
qed

text \<open>
  C4, as the code has it. When the metadata loader receives a url, and when a successful
  publish answers one: if the url parses and its path has a non-empty segment, the name
  becomes the last such segment (\<open>https://host/acme/app\<close> gives \<open>app\<close>), whatever name
  was stored; if the url parses and its path has no non-empty segment, the name stays
  the stored name; if the url does not parse, the name becomes the name provided next to
  the url when that is non-empty, and otherwise stays the stored name.
\<close>

theorem name_derivation:
  "(present pid = Some i \<longrightarrow> ok res \<longrightarrow> json res = JValue m \<longrightarrow>
    present (githubRepoUrl m) = Some u \<longrightarrow>
      (URL_pathname env u = Some p \<longrightarrow> path_segments p \<noteq> [] \<longrightarrow>
         repoName (apply_effects st (loadRepoInfo env pid (Fulfilled res))) = last (path_segments p))
    \<and> (URL_pathname env u = Some p \<longrightarrow> path_segments p = [] \<longrightarrow>
         repoName (apply_effects st (loadRepoInfo env pid (Fulfilled res))) = repoName st)
    \<and> (URL_pathname env u = None \<longrightarrow>
         repoName (apply_effects st (loadRepoInfo env pid (Fulfilled res))) =
           or_else (githubRepoName m) (repoName st)))
   \<and> (files st \<noteq> [] \<longrightarrow> JSON_parse env raw = JValue d \<longrightarrow> data_success d \<longrightarrow>
      present (data_repoUrl d) = Some u \<longrightarrow>
      (URL_pathname env u = Some p \<longrightarrow> path_segments p \<noteq> [] \<longrightarrow>
         repoName (apply_effects st (publishToGitHub env pid now (Fulfilled raw) st)) =
           last (path_segments p))
    \<and> (URL_pathname env u = Some p \<longrightarrow> path_segments p = [] \<longrightarrow>
         repoName (apply_effects st (publishToGitHub env pid now (Fulfilled raw) st)) =
           repoName st)
    \<and> (URL_pathname env u = None \<longrightarrow>
         repoName (apply_effects st (publishToGitHub env pid now (Fulfilled raw) st)) =
           or_else (data_repoName d) (repoName st)))"
proof (intro conjI impI)
  assume "present pid = Some i" "ok res" "json res = JValue m" "present (githubRepoUrl m) = Some u"
  then have load: "repoName (apply_effects st (loadRepoInfo env pid (Fulfilled res))) =
      repoName (apply_effects (st\<lparr>repoUrl := u\<rparr>) (deriveRepoName env u (githubRepoName m)))"
    by (simp add: loadRepoInfo_loaded repoName_applyLoaded_url)
  { assume "URL_pathname env u = Some p" "path_segments p \<noteq> []"
    then show "repoName (apply_effects st (loadRepoInfo env pid (Fulfilled res))) = last (path_segments p)"
      by (simp add: load repoName_deriveRepoName) }
  { assume "URL_pathname env u = Some p" "path_segments p = []"
    then show "repoName (apply_effects st (loadRepoInfo env pid (Fulfilled res))) = repoName st"
      by (simp add: load repoName_deriveRepoName) }
  { assume "URL_pathname env u = None"
    then show "repoName (apply_effects st (loadRepoInfo env pid (Fulfilled res))) =
           or_else (githubRepoName m) (repoName st)"
      by (simp add: load repoName_deriveRepoName) }
next
  assume a: "files st \<noteq> []" "JSON_parse env raw = JValue d" "data_success d"
    and u: "present (data_repoUrl d) = Some u"
  from u have pub: "repoName (apply_effects st (publishToGitHub env pid now (Fulfilled raw) st)) =
      repoName (apply_effects (st\<lparr>repoUrl := u\<rparr>) (deriveRepoName env u (data_repoName d)))"
    by (simp add: publish_success_repo(1) [OF a] applyPublishResult_def)
  { assume "URL_pathname env u = Some p" "path_segments p \<noteq> []"
    then show "repoName (apply_effects st (publishToGitHub env pid now (Fulfilled raw) st)) =
           last (path_segments p)"
      by (simp add: pub repoName_deriveRepoName) }
  { assume "URL_pathname env u = Some p" "path_segments p = []"
    then show "repoName (apply_effects st (publishToGitHub env pid now (Fulfilled raw) st)) =
           repoName st"
      by (simp add: pub repoName_deriveRepoName) }
  { assume "URL_pathname env u = None"
    then show "repoName (apply_effects st (publishToGitHub env pid now (Fulfilled raw) st)) =
           or_else (data_repoName d) (repoName st)"
      by (simp add: pub repoName_deriveRepoName) }
qed

theorem name_derivation_witness:
  "present (Some ''p1'') = Some ''p1'' \<and> ok loaded_app \<and> ok loaded_malformed
   \<and> URL_pathname example_platform ''https://host/acme/app'' = Some ''/acme/app''
   \<and> path_segments ''/acme/app'' \<noteq> []
   \<and> repoName (apply_effects (initial_state None)
        (loadRepoInfo example_platform (Some ''p1'') (Fulfilled loaded_app))) = ''app''
   \<and> URL_pathname example_platform ''not a url'' = None
   \<and> repoName (apply_effects (initial_state None)
        (loadRepoInfo example_platform (Some ''p1'') (Fulfilled loaded_malformed))) = ''stored-name''
   \<and> files fresh_workspace \<noteq> [] \<and> files published_workspace \<noteq> []
   \<and> repoName (apply_effects fresh_workspace
        (publishToGitHub example_platform (Some ''p1'') 0 (Fulfilled url_body) fresh_workspace))
       = ''ai-workspace-p1''
   \<and> repoName (apply_effects published_workspace
        (publishToGitHub example_platform (Some ''p1'') 0 (Fulfilled malformed_url_body)
           published_workspace))
       = ''app''
   \<and> URL_pathname example_platform ''https://github.com/'' = Some ''/''
   \<and> path_segments ''/'' = []
   \<and> repoName (apply_effects published_workspace
        (publishToGitHub example_platform (Some ''p1'') 0 (Fulfilled root_url_body)
           published_workspace))
       = ''app''"
proof -
  have fresh: "files fresh_workspace \<noteq> []" and stored: "files published_workspace \<noteq> []"
    by (simp_all add: workspace_examples)
  have loaded: "ok loaded_app" "ok loaded_malformed"
    "json loaded_app = JValue \<lparr>githubRepoName = Some ''old-name'',
        githubRepoUrl = Some ''https://host/acme/app'', githubBranch = None\<rparr>"
    "json loaded_malformed = JValue \<lparr>githubRepoName = Some ''stored-name'',
        githubRepoUrl = Some ''not a url'', githubBranch = None\<rparr>"
    by (simp_all add: loaded_app_def loaded_malformed_def)
  have segs: "path_segments ''/acme/app'' \<noteq> []" "last (path_segments ''/acme/app'') = ''app''"
    "last (path_segments ''/acme/ai-workspace-p1'') = ''ai-workspace-p1''"
    "path_segments ''/'' = []"
    by (simp_all add: segments_examples path_segments_def)
  from fresh stored loaded segs pathname_examples parse_examples
    name_derivation [where pid = "Some ''p1''" and i = "''p1''" and res = loaded_app
      and m = "\<lparr>githubRepoName = Some ''old-name'',
        githubRepoUrl = Some ''https://host/acme/app'', githubBranch = None\<rparr>"
      and u = "''https://host/acme/app''" and env = example_platform and p = "''/acme/app''"
      and st = "initial_state None"]
    name_derivation [where pid = "Some ''p1''" and i = "''p1''" and res = loaded_malformed
      and m = "\<lparr>githubRepoName = Some ''stored-name'',
        githubRepoUrl = Some ''not a url'', githubBranch = None\<rparr>"
      and u = "''not a url''" and env = example_platform and st = "initial_state None"]
    name_derivation [where u = "''https://github.com/acme/ai-workspace-p1''"
      and env = example_platform and p = "''/acme/ai-workspace-p1''" and st = fresh_workspace
      and raw = url_body and pid = "Some ''p1''" and now = 0
      and d = "\<lparr>data_success = True,
        data_repoUrl = Some ''https://github.com/acme/ai-workspace-p1'',
        data_repoName = None, data_error = None\<rparr>"]
    name_derivation [where u = "''not a url''" and env = example_platform
      and st = published_workspace and raw = malformed_url_body and pid = "Some ''p1''"
      and now = 0
      and d = "\<lparr>data_success = True, data_repoUrl = Some ''not a url'',
        data_repoName = None, data_error = None\<rparr>"]
    name_derivation [where u = "''https://github.com/''" and env = example_platform
      and p = "''/''" and st = published_workspace and raw = root_url_body
      and pid = "Some ''p1''" and now = 0
      and d = "\<lparr>data_success = True, data_repoUrl = Some ''https://github.com/'',
        data_repoName = None, data_error = None\<rparr>"]
  show ?thesis
    by (simp add: present_simps or_else_def workspace_examples segments_examples initial_state_def)
qed


subsection \<open>Without a project identifier\<close>

text \<open>
  C10. Without a project identifier (\<open>id\<close> undefined or empty) \<open>saveRepoMetadata\<close> does
  nothing, and no handler sends a metadata \<open>PATCH\<close>. A successful publish then sends
  the publish request and nothing else, still makes the update of the repository fields
  that the answer calls for (at least one setter is called), and emits the notice
  \<open>Published successfully!\<close>.
\<close>

theorem no_identifier_no_patch:
  assumes "present pid = None"
  shows "saveRepoMetadata pid meta = []
       \<and> metadata_patches (handle env pid st ev) = []
       \<and> (files st \<noteq> [] \<longrightarrow> JSON_parse env raw = JValue d \<longrightarrow> data_success d \<longrightarrow>
            requests (publishToGitHub env pid now (Fulfilled raw) st) =
              [(''/api/github-publish'', POST,
                PublishBody \<lparr>body_repoName = repoNameToUse pid now st, body_files = files st,
                              body_branch = repoBranch st\<rparr>)]
          \<and> toasts (publishToGitHub env pid now (Fulfilled raw) st) = [''Published successfully!'']
          \<and> metadata_updates (publishToGitHub env pid now (Fulfilled raw) st) =
              applyPublishResult env d (repoNameToUse pid now st)
          \<and> applyPublishResult env d (repoNameToUse pid now st) \<noteq> []
          \<and> repo_fields (apply_effects st (publishToGitHub env pid now (Fulfilled raw) st)) =
              repo_fields (apply_effects st (applyPublishResult env d (repoNameToUse pid now st))))"
proof -
  from assms have silent: "saveRepoMetadata pid meta = []"
    by (simp add: saveRepoMetadata_def)
  from assms have quiet: "metadata_patches (handle env pid st ev) = []"
    by (rule metadata_patches_handle)
  have publish: "requests (publishToGitHub env pid now (Fulfilled raw) st) =
              [(''/api/github-publish'', POST,
                PublishBody \<lparr>body_repoName = repoNameToUse pid now st, body_files = files st,
                              body_branch = repoBranch st\<rparr>)]
          \<and> toasts (publishToGitHub env pid now (Fulfilled raw) st) = [''Published successfully!'']
          \<and> metadata_updates (publishToGitHub env pid now (Fulfilled raw) st) =
              applyPublishResult env d (repoNameToUse pid now st)
          \<and> applyPublishResult env d (repoNameToUse pid now st) \<noteq> []
          \<and> repo_fields (apply_effects st (publishToGitHub env pid now (Fulfilled raw) st)) =
              repo_fields (apply_effects st (applyPublishResult env d (repoNameToUse pid now st)))"
    if ok: "files st \<noteq> []" "JSON_parse env raw = JValue d" "data_success d"
    using assms publish_success_requests [OF ok, of pid now]
      publish_success_toasts [OF ok, of pid now]
      publish_success_updates [OF ok, of pid now]
      repo_fields_updates [of st "publishToGitHub env pid now (Fulfilled raw) st"]
    by (simp add: saveRepoMetadata_requests applyPublishResult_nonempty)
  from silent quiet publish show ?thesis by blast
qed

theorem no_identifier_no_patch_witness:
  "present None = None
   \<and> files fresh_workspace \<noteq> []
   \<and> requests (publishToGitHub example_platform None 1700000000000 (Fulfilled url_body)
        fresh_workspace) =
       [(''/api/github-publish'', POST,
         PublishBody \<lparr>body_repoName = ''ai-workspace-1700000000000'',
           body_files = [(''App.js'', ''...'')], body_branch = ''main''\<rparr>)]
   \<and> toasts (publishToGitHub example_platform None 1700000000000 (Fulfilled url_body)
        fresh_workspace) = [''Published successfully!'']
   \<and> repo_fields (apply_effects fresh_workspace
        (publishToGitHub example_platform None 1700000000000 (Fulfilled url_body) fresh_workspace))
       = (''ai-workspace-p1'', ''https://github.com/acme/ai-workspace-p1'', ''main'')
   \<and> metadata_patches (handle example_platform None fresh_workspace
        (ClickPublish 1700000000000 (Fulfilled url_body))) = []"
proof -
  have absent: "present None = None"
    by (simp add: present_simps)
  have fresh: "files fresh_workspace \<noteq> []"
    by (simp add: workspace_examples)
  have name: "repoNameToUse None 1700000000000 fresh_workspace = ''ai-workspace-1700000000000''"
    by (simp add: repoNameToUse_def workspace_examples or_else_def present_simps show_nat_example)
  have applied: "repo_fields (apply_effects fresh_workspace
      (applyPublishResult example_platform
         \<lparr>data_success = True, data_repoUrl = Some ''https://github.com/acme/ai-workspace-p1'',
          data_repoName = None, data_error = None\<rparr> ''ai-workspace-1700000000000''))
     = (''ai-workspace-p1'', ''https://github.com/acme/ai-workspace-p1'', ''main'')"
    by (simp add: applyPublishResult_def deriveRepoName_def present_simps pathname_examples
          segments_examples pop_def repo_fields_def workspace_examples)
  from absent fresh
    no_identifier_no_patch [OF absent, where env = example_platform and st = fresh_workspace
      and ev = "ClickPublish 1700000000000 (Fulfilled url_body)" and raw = url_body
      and now = 1700000000000
      and d = "\<lparr>data_success = True,
        data_repoUrl = Some ''https://github.com/acme/ai-workspace-p1'',
        data_repoName = None, data_error = None\<rparr>"]
  show ?thesis
    by (simp add: parse_examples name applied workspace_examples)
qed

subsection \<open>Reconciling the repository fields with a publish result\<close>

text \<open>
  C3 does not hold as worded. Let a publish be answered with
  \<open>{"success":true,"repoUrl":"not a url","repoName":"given"}\<close>. The answer carries a
  \<open>repoUrl\<close>, so the first path is taken and the url is set; the url does not parse,
  and the name that is set is the answer's \<open>repoName\<close>: it is not derived from the url.
\<close>

theorem publish_result_precedence_counterexample:
  "present (Some ''not a url'') = Some ''not a url''
   \<and> URL_pathname example_platform ''not a url'' = None
   \<and> metadata_updates
        (publishToGitHub example_platform (Some ''p1'') 0 (Fulfilled given_body) published_workspace)
       = [SetRepoUrl ''not a url'', SetRepoName ''given'']
   \<and> repo_fields (apply_effects published_workspace
        (publishToGitHub example_platform (Some ''p1'') 0 (Fulfilled given_body)
           published_workspace))
       = (''given'', ''not a url'', ''main'')"
proof -
  have stored: "files published_workspace \<noteq> []"
    by (simp add: workspace_examples)
  have updates: "metadata_updates
      (publishToGitHub example_platform (Some ''p1'') 0 (Fulfilled given_body) published_workspace)
      = [SetRepoUrl ''not a url'', SetRepoName ''given'']"
    by (simp add: publish_success_updates [OF stored parse_examples(6)] applyPublishResult_def
          deriveRepoName_def present_simps pathname_examples)
  from updates repo_fields_after(1) [OF updates, of published_workspace] show ?thesis
    by (simp add: present_simps pathname_examples workspace_examples)
qed

text \<open>
  C3, as the code has it. After a successful publish exactly one of three updates of the
  repository fields is made, in this order of precedence (a field is present when it is
  a non-empty string). (1) \<open>repoUrl\<close> present: the url is set to it; the name is set to
  the last non-empty segment of the url's path when the url parses and has one, is not
  set when the url parses and has none, and when the url does not parse is set to the
  answer's \<open>repoName\<close> if that is present and is not set otherwise. (2) Otherwise
  \<open>repoName\<close> present: the name is set to it and the url is not set. (3) Otherwise the
  name is set to the attempted name, which is the name the publish request carried, and
  the url is not set. Each case gives the setter calls of the handler and the
  repository fields of any store on which they land (\<open>store\<close> need not be the state the
  handler read when it was triggered).
\<close>

theorem publish_result_precedence:
  assumes "files st \<noteq> []" and "JSON_parse env raw = JValue d" and "data_success d"
  shows
    "(present (data_repoUrl d) = Some u \<longrightarrow>
        (URL_pathname env u = Some p \<longrightarrow> path_segments p \<noteq> [] \<longrightarrow>
           metadata_updates (publishToGitHub env pid now (Fulfilled raw) st) =
             [SetRepoUrl u, SetRepoName (last (path_segments p))]
         \<and> repo_fields (apply_effects store (publishToGitHub env pid now (Fulfilled raw) st)) =
             (last (path_segments p), u, repoBranch store))
      \<and> (URL_pathname env u = Some p \<longrightarrow> path_segments p = [] \<longrightarrow>
           metadata_updates (publishToGitHub env pid now (Fulfilled raw) st) = [SetRepoUrl u]
         \<and> repo_fields (apply_effects store (publishToGitHub env pid now (Fulfilled raw) st)) =
             (repoName store, u, repoBranch store))
      \<and> (URL_pathname env u = None \<longrightarrow> present (data_repoName d) = Some n \<longrightarrow>
           metadata_updates (publishToGitHub env pid now (Fulfilled raw) st) =
             [SetRepoUrl u, SetRepoName n]
         \<and> repo_fields (apply_effects store (publishToGitHub env pid now (Fulfilled raw) st)) =
             (n, u, repoBranch store))
      \<and> (URL_pathname env u = None \<longrightarrow> present (data_repoName d) = None \<longrightarrow>
           metadata_updates (publishToGitHub env pid now (Fulfilled raw) st) = [SetRepoUrl u]
         \<and> repo_fields (apply_effects store (publishToGitHub env pid now (Fulfilled raw) st)) =
             (repoName store, u, repoBranch store)))
   \<and> (present (data_repoUrl d) = None \<longrightarrow> present (data_repoName d) = Some n \<longrightarrow>
        metadata_updates (publishToGitHub env pid now (Fulfilled raw) st) = [SetRepoName n]
      \<and> repo_fields (apply_effects store (publishToGitHub env pid now (Fulfilled raw) st)) =
          (n, repoUrl store, repoBranch store))
   \<and> (present (data_repoUrl d) = None \<longrightarrow> present (data_repoName d) = None \<longrightarrow>
        metadata_updates (publishToGitHub env pid now (Fulfilled raw) st) =
          [SetRepoName (repoNameToUse pid now st)]
      \<and> repo_fields (apply_effects store (publishToGitHub env pid now (Fulfilled raw) st)) =
          (repoNameToUse pid now st, repoUrl store, repoBranch store)
      \<and> take 1 (requests (publishToGitHub env pid now (Fulfilled raw) st)) =
          [(''/api/github-publish'', POST,
            PublishBody \<lparr>body_repoName = repoNameToUse pid now st, body_files = files st,
                          body_branch = repoBranch st\<rparr>)])"
proof -
  let ?P = "publishToGitHub env pid now (Fulfilled raw) st"
  note upd = publish_success_updates [OF assms, of pid now]
  note sent = publish_requests_head [OF assms(1), of env pid now "Fulfilled raw"]
  have parsed: "metadata_updates ?P = [SetRepoUrl u, SetRepoName (last (path_segments p))]
      \<and> repo_fields (apply_effects store ?P) = (last (path_segments p), u, repoBranch store)"
    if "present (data_repoUrl d) = Some u" "URL_pathname env u = Some p" "path_segments p \<noteq> []"
    using that by (simp add: upd applyPublishResult_cases(1) repo_fields_after)
  have rootless: "metadata_updates ?P = [SetRepoUrl u]
      \<and> repo_fields (apply_effects store ?P) = (repoName store, u, repoBranch store)"
    if "present (data_repoUrl d) = Some u" "URL_pathname env u = Some p" "path_segments p = []"
    using that by (simp add: upd applyPublishResult_cases(2) repo_fields_after)
  have fallback: "metadata_updates ?P = [SetRepoUrl u, SetRepoName n]
      \<and> repo_fields (apply_effects store ?P) = (n, u, repoBranch store)"
    if "present (data_repoUrl d) = Some u" "URL_pathname env u = None"
      "present (data_repoName d) = Some n"
    using that by (simp add: upd applyPublishResult_cases(3) repo_fields_after)
  have unset: "metadata_updates ?P = [SetRepoUrl u]
      \<and> repo_fields (apply_effects store ?P) = (repoName store, u, repoBranch store)"
    if "present (data_repoUrl d) = Some u" "URL_pathname env u = None"
      "present (data_repoName d) = None"
    using that by (simp add: upd applyPublishResult_cases(4) repo_fields_after)
  have second: "metadata_updates ?P = [SetRepoName n]
      \<and> repo_fields (apply_effects store ?P) = (n, repoUrl store, repoBranch store)"
    if "present (data_repoUrl d) = None" "present (data_repoName d) = Some n"
    using that by (simp add: upd applyPublishResult_cases(5) repo_fields_after)
  have third: "metadata_updates ?P = [SetRepoName (repoNameToUse pid now st)]
      \<and> repo_fields (apply_effects store ?P) =
          (repoNameToUse pid now st, repoUrl store, repoBranch store)"
    if "present (data_repoUrl d) = None" "present (data_repoName d) = None"
    using that by (simp add: upd applyPublishResult_cases(6) repo_fields_after)
  from parsed rootless fallback unset second third sent show ?thesis
    by blast
qed

theorem publish_result_precedence_witness:
  "files fresh_workspace \<noteq> [] \<and> files published_workspace \<noteq> []
   \<and> URL_pathname example_platform ''https://github.com/acme/ai-workspace-p1''
       = Some ''/acme/ai-workspace-p1''
   \<and> path_segments ''/acme/ai-workspace-p1'' \<noteq> []
   \<and> metadata_updates
        (publishToGitHub example_platform (Some ''p1'') 0 (Fulfilled url_body) fresh_workspace)
       = [SetRepoUrl ''https://github.com/acme/ai-workspace-p1'', SetRepoName ''ai-workspace-p1'']
   \<and> URL_pathname example_platform ''https://github.com/'' = Some ''/''
   \<and> path_segments ''/'' = []
   \<and> metadata_updates
        (publishToGitHub example_platform (Some ''p1'') 0 (Fulfilled root_url_body)
           published_workspace)
       = [SetRepoUrl ''https://github.com/'']
   \<and> URL_pathname example_platform ''not a url'' = None
   \<and> metadata_updates
        (publishToGitHub example_platform (Some ''p1'') 0 (Fulfilled given_body) published_workspace)
       = [SetRepoUrl ''not a url'', SetRepoName ''given'']
   \<and> metadata_updates
        (publishToGitHub example_platform (Some ''p1'') 0 (Fulfilled malformed_url_body)
           published_workspace)
       = [SetRepoUrl ''not a url'']
   \<and> repo_fields (apply_effects published_workspace
        (publishToGitHub example_platform (Some ''p1'') 0 (Fulfilled malformed_url_body)
           published_workspace))
       = (''app'', ''not a url'', ''main'')
   \<and> metadata_updates
        (publishToGitHub example_platform (Some ''p1'') 0 (Fulfilled renamed_body) published_workspace)
       = [SetRepoName ''app2'']
   \<and> repo_fields (apply_effects published_workspace
        (publishToGitHub example_platform (Some ''p1'') 0 (Fulfilled renamed_body)
           published_workspace))
       = (''app2'', ''https://github.com/acme/app'', ''main'')
   \<and> metadata_updates
        (publishToGitHub example_platform (Some ''p1'') 0 (Fulfilled bare_body) fresh_workspace)
       = [SetRepoName ''ai-workspace-p1'']
   \<and> repo_fields (apply_effects fresh_workspace
        (publishToGitHub example_platform (Some ''p1'') 0 (Fulfilled bare_body) fresh_workspace))
       = (''ai-workspace-p1'', [], ''main'')"
proof -
  have fresh: "files fresh_workspace \<noteq> []" and stored: "files published_workspace \<noteq> []"
    by (simp_all add: workspace_examples)
  have success: "data_success \<lparr>data_success = True, data_repoUrl = v, data_repoName = w,
      data_error = e\<rparr>" for v w e
    by simp
  have name: "repoNameToUse (Some ''p1'') 0 fresh_workspace = ''ai-workspace-p1''"
    by (simp add: repoNameToUse_def workspace_examples or_else_def present_simps)
  have root: "path_segments ''/'' = []"
    by (simp add: path_segments_def)
  from publish_result_precedence [OF fresh parse_examples(1) success,
      where u = "''https://github.com/acme/ai-workspace-p1''" and p = "''/acme/ai-workspace-p1''"
      and pid = "Some ''p1''" and now = 0 and store = fresh_workspace]
  have first: "metadata_updates
        (publishToGitHub example_platform (Some ''p1'') 0 (Fulfilled url_body) fresh_workspace)
       = [SetRepoUrl ''https://github.com/acme/ai-workspace-p1'', SetRepoName ''ai-workspace-p1'']"
    by (simp add: present_simps pathname_examples segments_examples)
  from publish_result_precedence [OF stored parse_examples(5) success,
      where u = "''https://github.com/''" and p = "''/''"
      and pid = "Some ''p1''" and now = 0 and store = published_workspace]
  have rootless: "metadata_updates
        (publishToGitHub example_platform (Some ''p1'') 0 (Fulfilled root_url_body)
           published_workspace)
       = [SetRepoUrl ''https://github.com/'']"
    by (simp add: present_simps pathname_examples root)
  from publish_result_precedence [OF stored parse_examples(6) success,
      where u = "''not a url''" and n = "''given''"
      and pid = "Some ''p1''" and now = 0 and store = published_workspace]
  have fallback: "metadata_updates
        (publishToGitHub example_platform (Some ''p1'') 0 (Fulfilled given_body) published_workspace)
       = [SetRepoUrl ''not a url'', SetRepoName ''given'']"
    by (simp add: present_simps pathname_examples)
  from publish_result_precedence [OF stored parse_examples(4) success,
      where u = "''not a url''"
      and pid = "Some ''p1''" and now = 0 and store = published_workspace]
  have unset: "metadata_updates
        (publishToGitHub example_platform (Some ''p1'') 0 (Fulfilled malformed_url_body)
           published_workspace)
       = [SetRepoUrl ''not a url'']"
    "repo_fields (apply_effects published_workspace
        (publishToGitHub example_platform (Some ''p1'') 0 (Fulfilled malformed_url_body)
           published_workspace))
       = (''app'', ''not a url'', ''main'')"
    by (simp_all add: present_simps pathname_examples workspace_examples)
  from publish_result_precedence [OF stored parse_examples(2) success,
      where n = "''app2''"
      and pid = "Some ''p1''" and now = 0 and store = published_workspace]
  have second: "metadata_updates
        (publishToGitHub example_platform (Some ''p1'') 0 (Fulfilled renamed_body) published_workspace)
       = [SetRepoName ''app2'']"
    "repo_fields (apply_effects published_workspace
        (publishToGitHub example_platform (Some ''p1'') 0 (Fulfilled renamed_body)
           published_workspace))
       = (''app2'', ''https://github.com/acme/app'', ''main'')"
    by (simp_all add: present_simps workspace_examples)
  from publish_result_precedence [OF fresh parse_examples(3) success,
      where pid = "Some ''p1''" and now = 0 and store = fresh_workspace]
  have third: "metadata_updates
        (publishToGitHub example_platform (Some ''p1'') 0 (Fulfilled bare_body) fresh_workspace)
       = [SetRepoName ''ai-workspace-p1'']"
    "repo_fields (apply_effects fresh_workspace
        (publishToGitHub example_platform (Some ''p1'') 0 (Fulfilled bare_body) fresh_workspace))
       = (''ai-workspace-p1'', [], ''main'')"
    by (simp_all add: present_simps name workspace_examples)
  from fresh stored root first rootless fallback unset second third show ?thesis
    by (simp add: pathname_examples segments_examples)
qed

subsection \<open>What a successful publish persists\<close>

text \<open>
  C1 does not hold as worded. Take the answer \<open>{"success":true,"repoName":"app2"}\<close>
  to a publish from a workspace that has the project identifier \<open>p1\<close> and holds the
  name \<open>app\<close> and the url \<open>https://github.com/acme/app\<close>: the store ends with the
  name \<open>app2\<close> and its url unchanged, and the one \<open>PATCH\<close> carries the name \<open>app\<close>
  and no url. So the body is not the name, url and branch of the store after the update.
\<close>

theorem publish_persists_metadata_counterexample:
  "metadata_patches
     (publishToGitHub example_platform (Some ''p1'') 0 (Fulfilled renamed_body) published_workspace)
     = [(''/api/projects/p1'',
         MetadataBody \<lparr>githubRepoName = Some ''app'', githubRepoUrl = None,
                        githubBranch = Some ''main''\<rparr>)]
   \<and> repo_fields (apply_effects published_workspace
        (publishToGitHub example_platform (Some ''p1'') 0 (Fulfilled renamed_body)
           published_workspace))
       = (''app2'', ''https://github.com/acme/app'', ''main'')
   \<and> metadata_patches
        (publishToGitHub example_platform (Some ''p1'') 0 (Fulfilled renamed_body) published_workspace)
       \<noteq> [(''/api/projects/p1'',
            MetadataBody
              \<lparr>githubRepoName = Some (repoName (apply_effects published_workspace
                 (publishToGitHub example_platform (Some ''p1'') 0 (Fulfilled renamed_body)
                    published_workspace))),
               githubRepoUrl = Some (repoUrl (apply_effects published_workspace
                 (publishToGitHub example_platform (Some ''p1'') 0 (Fulfilled renamed_body)
                    published_workspace))),
               githubBranch = Some (repoBranch (apply_effects published_workspace
                 (publishToGitHub example_platform (Some ''p1'') 0 (Fulfilled renamed_body)
                    published_workspace)))\<rparr>)]"
proof -
  have stored: "files published_workspace \<noteq> []"
    by (simp add: workspace_examples)
  have trace: "publishToGitHub example_platform (Some ''p1'') 0 (Fulfilled renamed_body)
      published_workspace =
      [SetLoading True,
       Fetch ''/api/github-publish'' POST
         (PublishBody \<lparr>body_repoName = ''app'', body_files = [(''App.js'', ''...'')],
                       body_branch = ''main''\<rparr>),
       SetRepoName ''app2'',
       Fetch ''/api/projects/p1'' PATCH
         (MetadataBody \<lparr>githubRepoName = Some ''app'', githubRepoUrl = None,
                        githubBranch = Some ''main''\<rparr>),
       Toast ''Published successfully!'',
       SetLoading False]"
    by (simp add: publish_success [OF stored parse_examples(2)] repoNameToUse_def
          applyPublishResult_def saveRepoMetadata_def publishedMetadata_def present_simps
          workspace_examples)
  show ?thesis
    by (simp add: trace repo_fields_def workspace_examples)
qed

text \<open>
  C1, as the code has it. After a successful publish of a non-empty file set the handler
  calls \<open>saveRepoMetadata\<close> once, with an object \<open>m\<close>: the metadata writes of the trace
  are those of that call, which is one \<open>PATCH\<close> to \<open>/api/projects/id\<close> with body \<open>m\<close>
  when there is a project identifier and nothing when there is none. The branch of \<open>m\<close>
  is the branch the handler read when it was triggered, the one the publish request
  carried; the handler sets no branch, and a branch that another handler stores while
  the request is in flight is not in \<open>m\<close>. The url of \<open>m\<close> is the answer's
  \<open>repoUrl\<close> when that is present, which is then the url of the store once the
  handler's setters have landed on it, and is left out otherwise. The name of \<open>m\<close> is
  the store's name after the handler's setters whenever they leave the store with the
  name that was sent. In the second scenario of the specification (nothing stored,
  identifier \<open>p1\<close>, the answer carrying the url of \<open>ai-workspace-p1\<close>) the body is the
  one the specification gives.
\<close>

theorem publish_persists_metadata:
  assumes "files st \<noteq> []" and "JSON_parse env raw = JValue d" and "data_success d"
  shows "\<exists>m.
      metadata_patches (publishToGitHub env pid now (Fulfilled raw) st) =
        metadata_patches (saveRepoMetadata pid m)
    \<and> metadata_patches (publishToGitHub env pid now (Fulfilled raw) st) =
        (case present pid of
           None \<Rightarrow> []
         | Some i \<Rightarrow> [(''/api/projects/'' @ i, MetadataBody m)])
    \<and> githubBranch m = Some (repoBranch st)
    \<and> take 1 (requests (publishToGitHub env pid now (Fulfilled raw) st)) =
        [(''/api/github-publish'', POST,
          PublishBody \<lparr>body_repoName = repoNameToUse pid now st, body_files = files st,
                        body_branch = repoBranch st\<rparr>)]
    \<and> githubRepoUrl m = present (data_repoUrl d)
    \<and> (\<forall>store. truthy (data_repoUrl d) \<longrightarrow>
         githubRepoUrl m =
           Some (repoUrl (apply_effects store (publishToGitHub env pid now (Fulfilled raw) st))))
    \<and> (\<forall>store.
         repoName (apply_effects store (publishToGitHub env pid now (Fulfilled raw) st)) =
           repoNameToUse pid now st \<longrightarrow>
         githubRepoName m =
           Some (repoName (apply_effects store (publishToGitHub env pid now (Fulfilled raw) st))))"
proof (intro exI [of _ "publishedMetadata d (repoNameToUse pid now st) st"] conjI allI impI)
  let ?P = "publishToGitHub env pid now (Fulfilled raw) st"
  show sent: "metadata_patches ?P =
      metadata_patches (saveRepoMetadata pid (publishedMetadata d (repoNameToUse pid now st) st))"
    by (rule publish_success_patches [OF assms])
  show "metadata_patches ?P =
      (case present pid of
         None \<Rightarrow> []
       | Some i \<Rightarrow>
           [(''/api/projects/'' @ i,
             MetadataBody (publishedMetadata d (repoNameToUse pid now st) st))])"
    by (simp add: sent saveRepoMetadata_requests)
  show "githubBranch (publishedMetadata d (repoNameToUse pid now st) st) = Some (repoBranch st)"
    by (simp add: publishedMetadata_def)
  show "take 1 (requests ?P) =
        [(''/api/github-publish'', POST,
          PublishBody \<lparr>body_repoName = repoNameToUse pid now st, body_files = files st,
                        body_branch = repoBranch st\<rparr>)]"
    by (rule publish_requests_head [OF assms(1)])
  show "githubRepoUrl (publishedMetadata d (repoNameToUse pid now st) st) = present (data_repoUrl d)"
    by (simp add: publishedMetadata_def)
next
  fix store
  assume "truthy (data_repoUrl d)"
  then obtain u where u: "present (data_repoUrl d) = Some u"
    by (auto simp: truthy_def)
  have "repoUrl (apply_effects store (publishToGitHub env pid now (Fulfilled raw) st)) =
      repoUrl (apply_effects store (applyPublishResult env d (repoNameToUse pid now st)))"
    using repo_apply_effects(2) [of store "publishToGitHub env pid now (Fulfilled raw) st"]
    by (simp add: publish_success_updates [OF assms])
  with u show "githubRepoUrl (publishedMetadata d (repoNameToUse pid now st) st) =
      Some (repoUrl (apply_effects store (publishToGitHub env pid now (Fulfilled raw) st)))"
    by (simp add: publishedMetadata_def applyPublishResult_def)
next
  fix store
  assume "repoName (apply_effects store (publishToGitHub env pid now (Fulfilled raw) st)) =
      repoNameToUse pid now st"
  then show "githubRepoName (publishedMetadata d (repoNameToUse pid now st) st) =
      Some (repoName (apply_effects store (publishToGitHub env pid now (Fulfilled raw) st)))"
    by (simp add: publishedMetadata_def)
qed

theorem publish_persists_metadata_witness:
  "files fresh_workspace \<noteq> []
   \<and> JSON_parse example_platform url_body =
       JValue \<lparr>data_success = True,
                data_repoUrl = Some ''https://github.com/acme/ai-workspace-p1'',
                data_repoName = None, data_error = None\<rparr>
   \<and> truthy (Some ''https://github.com/acme/ai-workspace-p1'')
   \<and> repoName (apply_effects fresh_workspace
        (publishToGitHub example_platform (Some ''p1'') 0 (Fulfilled url_body) fresh_workspace))
       = repoNameToUse (Some ''p1'') 0 fresh_workspace
   \<and> metadata_patches
        (publishToGitHub example_platform (Some ''p1'') 0 (Fulfilled url_body) fresh_workspace)
       = [(''/api/projects/p1'',
           MetadataBody \<lparr>githubRepoName = Some ''ai-workspace-p1'',
                          githubRepoUrl = Some ''https://github.com/acme/ai-workspace-p1'',
                          githubBranch = Some ''main''\<rparr>)]"
proof -
  let ?P = "publishToGitHub example_platform (Some ''p1'') 0 (Fulfilled url_body) fresh_workspace"
  have fresh: "files fresh_workspace \<noteq> []"
    by (simp add: workspace_examples)
  have given: "present (Some ''p1'') = Some ''p1''"
    "truthy (Some ''https://github.com/acme/ai-workspace-p1'')"
    by (simp_all add: present_simps truthy_def)
  have attempted: "repoNameToUse (Some ''p1'') 0 fresh_workspace = ''ai-workspace-p1''"
    by (simp add: repoNameToUse_def workspace_examples or_else_def present_simps)
  have derived: "deriveRepoName example_platform ''https://github.com/acme/ai-workspace-p1'' None
      = [SetRepoName ''ai-workspace-p1'']"
    by (simp add: deriveRepoName_def pathname_examples segments_examples pop_def)
  have success: "data_success \<lparr>data_success = True,
                data_repoUrl = Some ''https://github.com/acme/ai-workspace-p1'',
                data_repoName = None, data_error = None\<rparr>"
    by simp
  note repo = publish_success_repo [OF fresh parse_examples(1) success, of "Some ''p1''" 0]
  have store: "repoName (apply_effects fresh_workspace ?P) = ''ai-workspace-p1''"
    "repoUrl (apply_effects fresh_workspace ?P) = ''https://github.com/acme/ai-workspace-p1''"
    "repoBranch fresh_workspace = ''main''"
    by (simp_all add: repo applyPublishResult_def present_simps derived workspace_examples)
  let ?d = "\<lparr>data_success = True,
                data_repoUrl = Some ''https://github.com/acme/ai-workspace-p1'',
                data_repoName = None, data_error = None\<rparr>"
  from publish_persists_metadata [OF fresh parse_examples(1) success,
      where pid = "Some ''p1''" and now = 0]
  obtain m where sent: "metadata_patches ?P =
        (case present (Some ''p1'') of
           None \<Rightarrow> []
         | Some i \<Rightarrow> [(''/api/projects/'' @ i, MetadataBody m)])"
    and branch: "githubBranch m = Some (repoBranch fresh_workspace)"
    and url: "\<forall>store. truthy (data_repoUrl ?d) \<longrightarrow>
         githubRepoUrl m = Some (repoUrl (apply_effects store ?P))"
    and name: "\<forall>store. repoName (apply_effects store ?P) =
           repoNameToUse (Some ''p1'') 0 fresh_workspace \<longrightarrow>
         githubRepoName m = Some (repoName (apply_effects store ?P))"
    by blast
  from sent have patch: "metadata_patches ?P = [(''/api/projects/p1'', MetadataBody m)]"
    by (simp add: present_simps)
  from url [THEN spec, of fresh_workspace] given(2)
  have "githubRepoUrl m = Some (repoUrl (apply_effects fresh_workspace ?P))"
    by simp
  moreover from name [THEN spec, of fresh_workspace] store(1) attempted
  have "githubRepoName m = Some (repoName (apply_effects fresh_workspace ?P))"
    by simp
  ultimately have "m = \<lparr>githubRepoName = Some ''ai-workspace-p1'',
      githubRepoUrl = Some ''https://github.com/acme/ai-workspace-p1'',
      githubBranch = Some ''main''\<rparr>"
    using branch store by (cases m) simp
  with patch fresh given store attempted show ?thesis
    by (simp add: parse_examples)
qed

subsection \<open>The branch\<close>

text \<open>
  C9 does not hold as worded. Take a session without a project identifier in which a
  publish has been answered \<open>{"success":true}\<close>, so that the attempted name is stored
  and the button that changes the branch is rendered. A branch change with the input \<open>dev\<close> then updates
  the branch and emits its notice, and sends nothing: the new branch is not persisted.
\<close>

theorem branch_change_counterexample:
  "repo_actions_rendered (run example_platform None (initial_state None)
      [ProjectFiles (Some example_files), ClickPublish 1700000000000 (Fulfilled bare_body)])
   \<and> repoBranch (run example_platform None (initial_state None)
        [ProjectFiles (Some example_files), ClickPublish 1700000000000 (Fulfilled bare_body),
         ClickChangeBranch (Some ''dev'')]) = ''dev''
   \<and> toasts (changeBranch None (Some ''dev'')
        (run example_platform None (initial_state None)
           [ProjectFiles (Some example_files),
            ClickPublish 1700000000000 (Fulfilled bare_body)]))
       = [''Branch set to dev'']
   \<and> requests (changeBranch None (Some ''dev'')
        (run example_platform None (initial_state None)
           [ProjectFiles (Some example_files),
            ClickPublish 1700000000000 (Fulfilled bare_body)]))
       = []"
proof -
  let ?s1 = "step example_platform None (initial_state None) (ProjectFiles (Some example_files))"
  let ?s2 = "step example_platform None ?s1 (ClickPublish 1700000000000 (Fulfilled bare_body))"
  have s1: "?s1 = fresh_workspace"
    by (simp add: step_def replaceFiles_def fresh_workspace_def example_files_def)
  have fresh: "files fresh_workspace \<noteq> []"
    by (simp add: workspace_examples)
  have success: "data_success \<lparr>data_success = True, data_repoUrl = None,
      data_repoName = None, data_error = None\<rparr>"
    by simp
  have name: "repoNameToUse None 1700000000000 fresh_workspace = ''ai-workspace-1700000000000''"
    by (simp add: repoNameToUse_def workspace_examples or_else_def present_simps show_nat_example)
  have updates: "metadata_updates
      (publishToGitHub example_platform None 1700000000000 (Fulfilled bare_body) fresh_workspace)
      = [SetRepoName ''ai-workspace-1700000000000'']"
    by (simp add: publish_success_updates [OF fresh parse_examples(3) success]
          applyPublishResult_cases(6) present_simps name)
  have "repo_fields (step example_platform None fresh_workspace
      (ClickPublish 1700000000000 (Fulfilled bare_body)))
      = (''ai-workspace-1700000000000'', repoUrl fresh_workspace, repoBranch fresh_workspace)"
    using repo_fields_after(3) [OF updates, of fresh_workspace] by (simp add: step_def)
  then have "repo_fields ?s2 =
      (''ai-workspace-1700000000000'', repoUrl fresh_workspace, repoBranch fresh_workspace)"
    by (simp only: s1)
  then have rendered: "repo_actions_rendered ?s2"
    by (simp add: repo_fields_def repo_actions_rendered_def)
  have changed: "repoBranch (step example_platform None ?s2 (ClickChangeBranch (Some ''dev''))) = ''dev''"
    by (simp add: step_branch present_simps)
  have quiet: "toasts (changeBranch None (Some ''dev'') ?s2) = [''Branch set to dev'']"
    "requests (changeBranch None (Some ''dev'') ?s2) = []"
    by (simp_all add: changeBranch_def saveRepoMetadata_def present_simps)
  from rendered changed quiet show ?thesis
    by simp
qed

text \<open>
  C9, as the code has it. The branch is \<open>main\<close> initially. A step of the session leaves
  the branch as it is unless its event sets a branch (\<open>branch_set_by\<close>: a metadata load
  that delivers a non-empty \<open>githubBranch\<close>, or a branch change with a non-empty input),
  and then the branch is the one set. So the branch is \<open>main\<close> after any sequence of
  events none of which sets a branch; loads that fail, loads of a record without a
  branch and cancelled prompts are such events. A branch change whose input is cancelled
  or empty leaves the state as it is, sends nothing and emits no notice. A non-empty
  input \<open>b\<close> sets the branch to \<open>b\<close>, emits the one notice \<open>Branch set to b\<close>, and
  sends one \<open>PATCH\<close> with body \<open>{githubBranch: b}\<close> when there is a project
  identifier, and nothing when there is none.
\<close>

theorem branch_change:
  "repoBranch (initial_state DEFAULT_FILE) = ''main''
   \<and> repoBranch (step env pid st ev) =
       (case branch_set_by pid ev of None \<Rightarrow> repoBranch st | Some b \<Rightarrow> b)
   \<and> (list_all (\<lambda>ev. branch_set_by pid ev = None) evs \<longrightarrow>
        repoBranch (run env pid (initial_state DEFAULT_FILE) evs) = ''main'')
   \<and> (present answer = None \<longrightarrow>
        step env pid st (ClickChangeBranch answer) = st
      \<and> metadata_updates (changeBranch pid answer st) = []
      \<and> requests (changeBranch pid answer st) = []
      \<and> toasts (changeBranch pid answer st) = [])
   \<and> (present answer = Some b \<longrightarrow>
        repoBranch (step env pid st (ClickChangeBranch answer)) = b
      \<and> metadata_updates (changeBranch pid answer st) = [SetRepoBranch b]
      \<and> toasts (changeBranch pid answer st) = [''Branch set to '' @ b]
      \<and> requests (changeBranch pid answer st) =
          (case present pid of
             None \<Rightarrow> []
           | Some i \<Rightarrow>
               [(''/api/projects/'' @ i, PATCH,
                 MetadataBody \<lparr>githubRepoName = None, githubRepoUrl = None,
                                githubBranch = Some b\<rparr>)]))"
proof (intro conjI impI)
  show "repoBranch (initial_state DEFAULT_FILE) = ''main''"
    by (simp add: initial_state_def)
  then show "repoBranch (run env pid (initial_state DEFAULT_FILE) evs) = ''main''"
    if "list_all (\<lambda>ev. branch_set_by pid ev = None) evs"
    using that by (simp add: run_branch)
  show "repoBranch (step env pid st ev) =
       (case branch_set_by pid ev of None \<Rightarrow> repoBranch st | Some b \<Rightarrow> b)"
    by (rule step_branch)
next
  assume none: "present answer = None"
  then show "step env pid st (ClickChangeBranch answer) = st"
    by (simp add: step_def changeBranch_def)
  from none show "metadata_updates (changeBranch pid answer st) = []"
    by (simp add: changeBranch_def)
  from none show "requests (changeBranch pid answer st) = []"
    by (simp add: changeBranch_def)
  from none show "toasts (changeBranch pid answer st) = []"
    by (simp add: changeBranch_def)
next
  assume some: "present answer = Some b"
  then show "repoBranch (step env pid st (ClickChangeBranch answer)) = b"
    by (simp add: step_branch)
  from some show "metadata_updates (changeBranch pid answer st) = [SetRepoBranch b]"
    by (simp add: changeBranch_def)
  from some show "toasts (changeBranch pid answer st) = [''Branch set to '' @ b]"
    by (simp add: changeBranch_def)
  from some show "requests (changeBranch pid answer st) =
          (case present pid of
             None \<Rightarrow> []
           | Some i \<Rightarrow>
               [(''/api/projects/'' @ i, PATCH,
                 MetadataBody \<lparr>githubRepoName = None, githubRepoUrl = None,
                                githubBranch = Some b\<rparr>)])"
    by (simp add: changeBranch_def saveRepoMetadata_requests)
qed

theorem branch_change_witness:
  "list_all (\<lambda>ev. branch_set_by (Some ''p1'') ev = None)
     [LoadRepoInfo (Fulfilled loaded_app), LoadRepoInfo Rejected,
      ProjectFiles (Some example_files), ClickPublish 0 (Fulfilled url_body),
      ClickChangeBranch None, ClickOpenRepo]
   \<and> repoBranch (run example_platform (Some ''p1'') (initial_state None)
        [LoadRepoInfo (Fulfilled loaded_app), LoadRepoInfo Rejected,
         ProjectFiles (Some example_files), ClickPublish 0 (Fulfilled url_body),
         ClickChangeBranch None, ClickOpenRepo])
       = ''main''
   \<and> branch_set_by (Some ''p1'') (LoadRepoInfo (Fulfilled loaded_dev)) = Some ''dev''
   \<and> repoBranch (step example_platform (Some ''p1'') (initial_state None)
        (LoadRepoInfo (Fulfilled loaded_dev))) = ''dev''
   \<and> repo_actions_rendered published_workspace
   \<and> present None = None \<and> present (Some []) = None
   \<and> step example_platform (Some ''p1'') published_workspace (ClickChangeBranch None)
       = published_workspace
   \<and> step example_platform (Some ''p1'') published_workspace (ClickChangeBranch (Some []))
       = published_workspace
   \<and> requests (changeBranch (Some ''p1'') (Some []) published_workspace) = []
   \<and> present (Some ''dev'') = Some ''dev''
   \<and> repoBranch (step example_platform (Some ''p1'') published_workspace
        (ClickChangeBranch (Some ''dev''))) = ''dev''
   \<and> toasts (changeBranch (Some ''p1'') (Some ''dev'') published_workspace) = [''Branch set to dev'']
   \<and> requests (changeBranch (Some ''p1'') (Some ''dev'') published_workspace) =
       [(''/api/projects/p1'', PATCH,
         MetadataBody \<lparr>githubRepoName = None, githubRepoUrl = None,
                        githubBranch = Some ''dev''\<rparr>)]"
proof -
  have quiet: "list_all (\<lambda>ev. branch_set_by (Some ''p1'') ev = None)
     [LoadRepoInfo (Fulfilled loaded_app), LoadRepoInfo Rejected,
      ProjectFiles (Some example_files), ClickPublish 0 (Fulfilled url_body),
      ClickChangeBranch None, ClickOpenRepo]"
    by (simp add: loaded_app_def present_simps)
  have loaded: "branch_set_by (Some ''p1'') (LoadRepoInfo (Fulfilled loaded_dev)) = Some ''dev''"
    by (simp add: loaded_dev_def present_simps)
  have rendered: "repo_actions_rendered published_workspace"
    by (simp add: repo_actions_rendered_def workspace_examples)
  have answers: "present None = None" "present (Some []) = None"
    "present (Some ''dev'') = Some ''dev''" "present (Some ''p1'') = Some ''p1''"
    by (simp_all add: present_simps)
  note session = branch_change [where evs = "[LoadRepoInfo (Fulfilled loaded_app),
      LoadRepoInfo Rejected, ProjectFiles (Some example_files),
      ClickPublish 0 (Fulfilled url_body), ClickChangeBranch None, ClickOpenRepo]"
      and env = example_platform and pid = "Some ''p1''" and DEFAULT_FILE = None
      and answer = None and st = published_workspace and b = "''dev''"
      and ev = ClickOpenRepo]
  note load = branch_change [where evs = "[]" and env = example_platform
      and pid = "Some ''p1''" and DEFAULT_FILE = None and answer = "Some []"
      and st = "initial_state None" and b = "''dev''"
      and ev = "LoadRepoInfo (Fulfilled loaded_dev)"]
  note empty = branch_change [where evs = "[]" and env = example_platform
      and pid = "Some ''p1''" and DEFAULT_FILE = None and answer = "Some []"
      and st = published_workspace and b = "''dev''" and ev = ClickOpenRepo]
  note typed = branch_change [where evs = "[]" and env = example_platform
      and pid = "Some ''p1''" and DEFAULT_FILE = None and answer = "Some ''dev''"
      and st = published_workspace and b = "''dev''" and ev = ClickOpenRepo]
  from session quiet have main: "repoBranch (run example_platform (Some ''p1'') (initial_state None)
        [LoadRepoInfo (Fulfilled loaded_app), LoadRepoInfo Rejected,
         ProjectFiles (Some example_files), ClickPublish 0 (Fulfilled url_body),
         ClickChangeBranch None, ClickOpenRepo])
       = ''main''"
    by blast
  from load have "repoBranch (step example_platform (Some ''p1'') (initial_state None)
        (LoadRepoInfo (Fulfilled loaded_dev))) =
       (case branch_set_by (Some ''p1'') (LoadRepoInfo (Fulfilled loaded_dev)) of
          None \<Rightarrow> repoBranch (initial_state None) | Some b \<Rightarrow> b)"
    by blast
  with loaded have set: "repoBranch (step example_platform (Some ''p1'') (initial_state None)
        (LoadRepoInfo (Fulfilled loaded_dev))) = ''dev''"
    by simp
  from session answers(1) have cancelled:
    "step example_platform (Some ''p1'') published_workspace (ClickChangeBranch None)
       = published_workspace"
    by blast
  from empty answers(2) have blank:
    "step example_platform (Some ''p1'') published_workspace (ClickChangeBranch (Some []))
       = published_workspace"
    "requests (changeBranch (Some ''p1'') (Some []) published_workspace) = []"
    by blast+
  from typed answers(3) have changed:
    "repoBranch (step example_platform (Some ''p1'') published_workspace
        (ClickChangeBranch (Some ''dev''))) = ''dev''"
    "toasts (changeBranch (Some ''p1'') (Some ''dev'') published_workspace)
       = [''Branch set to '' @ ''dev'']"
    "requests (changeBranch (Some ''p1'') (Some ''dev'') published_workspace) =
       (case present (Some ''p1'') of
             None \<Rightarrow> []
           | Some i \<Rightarrow>
               [(''/api/projects/'' @ i, PATCH,
                 MetadataBody \<lparr>githubRepoName = None, githubRepoUrl = None,
                                githubBranch = Some ''dev''\<rparr>)])"
    by blast+
  from quiet loaded rendered answers main set cancelled blank changed show ?thesis
    by simp
qed

end
